theory Spec2Isabelle
  imports Main
begin

section \<open>Error values\<close>

text \<open>
  Go error values that the package creates or compares against. \<open>ErrBadInput\<close> is the
  sentinel \<^verbatim>\<open>hiro.ErrBadInput\<close>, \<open>ErrNoRows\<close> is \<^verbatim>\<open>sql.ErrNoRows\<close>, \<open>ErrorsNew m\<close> is
  \<^verbatim>\<open>errors.New(m)\<close>, \<open>External m\<close> is any error produced by a collaborator (JSON decoder,
  database driver, vendor SDK), \<open>Wrapping m e\<close> is a collaborator error whose \<^verbatim>\<open>Unwrap\<close>
  yields \<open>e\<close>, and \<open>PushNotificationDeliveryFailed e\<close> is the package's own struct
  \<^verbatim>\<open>&PushNotificationDeliveryFailed{Err: e}\<close> (it has an \<^verbatim>\<open>Error\<close> method only, no
  \<^verbatim>\<open>Unwrap\<close>).
\<close>

datatype error =
    ErrBadInput
  | ErrNoRows
  | ErrorsNew string
  | External string
  | Wrapping string error
  | PushNotificationDeliveryFailed error

text \<open>\<^verbatim>\<open>errors.Is(err, target)\<close>: equality along the \<^verbatim>\<open>Unwrap\<close> chain.\<close>

fun errors_Is :: "error \<Rightarrow> error \<Rightarrow> bool" where
  "errors_Is (Wrapping m e) target = (Wrapping m e = target \<or> errors_Is e target)"
| "errors_Is e target = (e = target)"

section \<open>Credential loader\<close>

record APNSCredentials =
  Environment :: string
  TeamID :: string
  Topic :: string
  P8AuthKeyID :: string
  P8AuthKeyFilePath :: string

record FCMCredentials =
  ProjectID :: string
  CredentialsFilePath :: string

text \<open>Indexing a Go \<^verbatim>\<open>map[string]string\<close>: a missing key reads as the zero value.\<close>

definition map_index :: "(string \<rightharpoonup> string) \<Rightarrow> string \<Rightarrow> string" where
  "map_index env k = (case env k of None \<Rightarrow> [] | Some v \<Rightarrow> v)"

definition NewAPNSCredentialsFromEnv :: "(string \<rightharpoonup> string) \<Rightarrow> APNSCredentials" where
  "NewAPNSCredentialsFromEnv env =
     \<lparr> Environment = map_index env ''APNS_ENVIRONMENT'',
       TeamID = map_index env ''APNS_TEAM_ID'',
       Topic = map_index env ''APNS_TOPIC'',
       P8AuthKeyID = map_index env ''APNS_P8_AUTH_KEY_ID'',
       P8AuthKeyFilePath = map_index env ''APNS_P8_AUTH_KEY_FILE_PATH'' \<rparr>"

definition NewFCMCredentialsFromEnv :: "(string \<rightharpoonup> string) \<Rightarrow> FCMCredentials" where
  "NewFCMCredentialsFromEnv env =
     \<lparr> ProjectID = map_index env ''FCM_PROJECT_ID'',
       CredentialsFilePath = map_index env ''FCM_CREDENTIALS_FILE_PATH'' \<rparr>"

section \<open>Vendor data\<close>

text \<open>
  The values handed to and received from the two vendor SDKs. Only what the package
  reads or writes is kept: the APNs client's token and host, the alert title and body
  and the custom keys of a payload, the status code and reason of a response.
\<close>

datatype "context" = Ctx nat

datatype auth_key = AuthKey string

record Token =
  tok_AuthKey :: auth_key
  tok_KeyID :: string
  tok_TeamID :: string

datatype apns_host = HostDevelopment | HostProduction

record apns_Client =
  cl_Token :: Token
  cl_Host :: apns_host

text \<open>\<^verbatim>\<open>apns2.NewTokenClient\<close> starts on the library's default host, the development one.\<close>

definition NewTokenClient :: "Token \<Rightarrow> apns_Client" where
  "NewTokenClient tok = \<lparr> cl_Token = tok, cl_Host = HostDevelopment \<rparr>"

definition Production :: "apns_Client \<Rightarrow> apns_Client" where
  "Production cl = cl\<lparr> cl_Host := HostProduction \<rparr>"

definition Development :: "apns_Client \<Rightarrow> apns_Client" where
  "Development cl = cl\<lparr> cl_Host := HostDevelopment \<rparr>"

record Payload =
  alert_Title :: string
  alert_Body :: string
  custom :: "string \<rightharpoonup> string"

definition NewPayload :: Payload where
  "NewPayload = \<lparr> alert_Title = [], alert_Body = [], custom = Map.empty \<rparr>"

definition AlertTitle :: "string \<Rightarrow> Payload \<Rightarrow> Payload" where
  "AlertTitle t p = p\<lparr> alert_Title := t \<rparr>"

definition AlertBody :: "string \<Rightarrow> Payload \<Rightarrow> Payload" where
  "AlertBody b p = p\<lparr> alert_Body := b \<rparr>"

definition Custom :: "string \<Rightarrow> string \<Rightarrow> Payload \<Rightarrow> Payload" where
  "Custom k v p = p\<lparr> custom := (custom p)(k \<mapsto> v) \<rparr>"

record apns_Notification =
  n_DeviceToken :: string
  n_Topic :: string
  n_Payload :: Payload

record Response =
  StatusCode :: int
  Reason :: string

text \<open>\<^verbatim>\<open>Response.Sent\<close> of the APNs library: the status code is 200.\<close>

definition Sent :: "Response \<Rightarrow> bool" where
  "Sent r = (StatusCode r = 200)"

record firebase_Config =
  cfg_ProjectID :: string

datatype firebase_App = FirebaseApp nat

datatype messaging_Client = MessagingClient nat

record messaging_Notification =
  mn_Title :: string
  mn_Body :: string
  mn_ImageURL :: string

record messaging_Message =
  m_Notification :: messaging_Notification
  m_Token :: string
  m_Data :: "string \<rightharpoonup> string"

section \<open>Device rows and requests\<close>

record NullString =
  ns_String :: string
  ns_Valid :: bool

text \<open>One scanned row of \<^verbatim>\<open>user_device\<close>: id, Android token, iOS token.\<close>

type_synonym device_row = "string \<times> NullString \<times> NullString"

record NotificationRequest =
  UserID :: string
  DeviceToken :: string
  Title :: string
  Body :: string
  ImageURL :: string
  ExternalID :: string
  IsIOS :: bool

section \<open>Collaborators and the record of their calls\<close>

text \<open>
  Every call that leaves the package is recorded, with its arguments and its outcome,
  in the order the calls are made.
\<close>

datatype event =
    EvLogDebug string error
  | EvQueryContext "context" string "error + (error + device_row) list"
  | EvAuthKeyFromFile string "error + auth_key"
  | EvNewTokenClient Token
  | EvPushWithContext "context" apns_Client apns_Notification "error + Response"
  | EvNewApp "context" firebase_Config string "error + firebase_App"
  | EvMessaging "context" firebase_App "error + messaging_Client"
  | EvSend "context" messaging_Client messaging_Message "error + string"

text \<open>
  The collaborators are parameters of the model. Each may answer differently as the
  history of calls grows, so each takes the calls made so far. \<open>Unmarshal\<close> is
  \<^verbatim>\<open>json.Unmarshal\<close> into a \<^verbatim>\<open>NotificationRequest\<close>; \<open>QueryContext\<close> is the device-token
  store, answering with a query error or with the rows as \<^verbatim>\<open>rows.Next\<close> and \<^verbatim>\<open>rows.Scan\<close>
  deliver them, each row scanned or failing to scan. As in \<^verbatim>\<open>database/sql\<close>, a query that
  matches no row is answered with no error and no rows, \<open>Inr []\<close>. The deferred
  \<^verbatim>\<open>rows.Close\<close> has no effect the package observes and is left out.
\<close>

record collaborators =
  Unmarshal :: "string \<Rightarrow> error + NotificationRequest"
  QueryContext :: "event list \<Rightarrow> context \<Rightarrow> string \<Rightarrow> error + (error + device_row) list"
  AuthKeyFromFile :: "event list \<Rightarrow> string \<Rightarrow> error + auth_key"
  PushWithContext :: "event list \<Rightarrow> context \<Rightarrow> apns_Client \<Rightarrow> apns_Notification \<Rightarrow> error + Response"
  NewApp :: "event list \<Rightarrow> context \<Rightarrow> firebase_Config \<Rightarrow> string \<Rightarrow> error + firebase_App"
  Messaging :: "event list \<Rightarrow> context \<Rightarrow> firebase_App \<Rightarrow> error + messaging_Client"
  Send :: "event list \<Rightarrow> context \<Rightarrow> messaging_Client \<Rightarrow> messaging_Message \<Rightarrow> error + string"

section \<open>Push client\<close>

record PushClient =
  apnsClient :: "apns_Client option"
  apnsCreds :: APNSCredentials
  ctx :: "context"
  fcmClient :: "messaging_Client option"
  fcmCreds :: FCMCredentials

definition NewPushClient :: "context \<Rightarrow> APNSCredentials \<Rightarrow> FCMCredentials \<Rightarrow> PushClient" where
  "NewPushClient cx apns fcm =
     \<lparr> apnsClient = None, apnsCreds = apns, ctx = cx, fcmClient = None, fcmCreds = fcm \<rparr>"

definition NewPushClientFromEnv :: "context \<Rightarrow> (string \<rightharpoonup> string) \<Rightarrow> PushClient" where
  "NewPushClientFromEnv cx props =
     NewPushClient cx (NewAPNSCredentialsFromEnv props) (NewFCMCredentialsFromEnv props)"

text \<open>
  A method of the client takes the client and the calls made so far, and returns its
  result with the client and the calls afterwards.
\<close>

definition getAPNSClient ::
  "collaborators \<Rightarrow> PushClient \<Rightarrow> event list \<Rightarrow> (error + apns_Client) \<times> PushClient \<times> event list" where
  "getAPNSClient w c tr =
     (case apnsClient c of
        Some h \<Rightarrow> (Inr h, c, tr)
      | None \<Rightarrow>
          (let path = P8AuthKeyFilePath (apnsCreds c) in
           case AuthKeyFromFile w tr path of
             Inl err \<Rightarrow> (Inl err, c, tr @ [EvAuthKeyFromFile path (Inl err)])
           | Inr authKey \<Rightarrow>
               (let tok = \<lparr> tok_AuthKey = authKey,
                            tok_KeyID = P8AuthKeyID (apnsCreds c),
                            tok_TeamID = TeamID (apnsCreds c) \<rparr>;
                    cl0 = Production (NewTokenClient tok);
                    cl = (if Environment (apnsCreds c) = ''development''
                          then Development cl0 else cl0)
                in (Inr cl, c\<lparr> apnsClient := Some cl \<rparr>,
                    tr @ [EvAuthKeyFromFile path (Inr authKey), EvNewTokenClient tok]))))"

definition getFCMClient ::
  "collaborators \<Rightarrow> PushClient \<Rightarrow> event list \<Rightarrow> (error + messaging_Client) \<times> PushClient \<times> event list" where
  "getFCMClient w c tr =
     (case fcmClient c of
        Some h \<Rightarrow> (Inr h, c, tr)
      | None \<Rightarrow>
          (let opts = CredentialsFilePath (fcmCreds c);
               fcmConfig = \<lparr> cfg_ProjectID = ProjectID (fcmCreds c) \<rparr>;
               r1 = NewApp w tr (ctx c) fcmConfig opts;
               tr1 = tr @ [EvNewApp (ctx c) fcmConfig opts r1]
           in case r1 of
                Inl err \<Rightarrow> (Inl err, c, tr1)
              | Inr app \<Rightarrow>
                  (let r2 = Messaging w tr1 (ctx c) app;
                       tr2 = tr1 @ [EvMessaging (ctx c) app r2]
                   in case r2 of
                        Inl err \<Rightarrow> (Inl err, c, tr2)
                      | Inr cl \<Rightarrow> (Inr cl, c\<lparr> fcmClient := Some cl \<rparr>, tr2))))"

text \<open>The notification \<^verbatim>\<open>SendApplePush\<close> builds before it asks for the client.\<close>

definition apple_notification ::
  "PushClient \<Rightarrow> string \<Rightarrow> string \<Rightarrow> string \<Rightarrow> string \<Rightarrow> string \<Rightarrow> apns_Notification" where
  "apple_notification c deviceToken title body imageURL externalID =
     (let contents = AlertBody body (AlertTitle title NewPayload);
          contents = Custom ''external_id'' externalID (Custom ''image_url'' imageURL contents)
      in \<lparr> n_DeviceToken = deviceToken, n_Topic = Topic (apnsCreds c), n_Payload = contents \<rparr>)"

definition SendApplePush ::
  "collaborators \<Rightarrow> PushClient \<Rightarrow> event list \<Rightarrow> context \<Rightarrow>
   string \<Rightarrow> string \<Rightarrow> string \<Rightarrow> string \<Rightarrow> string \<Rightarrow> error option \<times> PushClient \<times> event list" where
  "SendApplePush w c tr cx deviceToken title body imageURL externalID =
     (let notification = apple_notification c deviceToken title body imageURL externalID in
      case getAPNSClient w c tr of
        (Inl err, c1, tr1) \<Rightarrow> (Some err, c1, tr1)
      | (Inr cl, c1, tr1) \<Rightarrow>
          (let r = PushWithContext w tr1 cx cl notification;
               tr2 = tr1 @ [EvPushWithContext cx cl notification r]
           in case r of
                Inl err \<Rightarrow> (Some (PushNotificationDeliveryFailed err), c1, tr2)
              | Inr response \<Rightarrow>
                  (if \<not> Sent response
                   then (Some (PushNotificationDeliveryFailed (ErrorsNew (Reason response))), c1, tr2)
                   else (None, c1, tr2))))"

text \<open>The message \<^verbatim>\<open>SendFirebasePush\<close> builds before it asks for the client.\<close>

definition firebase_message ::
  "string \<Rightarrow> string \<Rightarrow> string \<Rightarrow> string \<Rightarrow> string \<Rightarrow> messaging_Message" where
  "firebase_message deviceToken title body imageURL externalID =
     \<lparr> m_Notification = \<lparr> mn_Title = title, mn_Body = body, mn_ImageURL = imageURL \<rparr>,
       m_Token = deviceToken,
       m_Data = [''external_id'' \<mapsto> externalID] \<rparr>"

definition SendFirebasePush ::
  "collaborators \<Rightarrow> PushClient \<Rightarrow> event list \<Rightarrow> context \<Rightarrow>
   string \<Rightarrow> string \<Rightarrow> string \<Rightarrow> string \<Rightarrow> string \<Rightarrow> error option \<times> PushClient \<times> event list" where
  "SendFirebasePush w c tr cx deviceToken title body imageURL externalID =
     (let contents = firebase_message deviceToken title body imageURL externalID in
      case getFCMClient w c tr of
        (Inl err, c1, tr1) \<Rightarrow> (Some err, c1, tr1)
      | (Inr cl, c1, tr1) \<Rightarrow>
          (let r = Send w tr1 cx cl contents;
               tr2 = tr1 @ [EvSend cx cl contents r]
           in case r of
                Inl err \<Rightarrow> (Some (PushNotificationDeliveryFailed err), c1, tr2)
              | Inr _ \<Rightarrow> (None, c1, tr2)))"

text \<open>
  The loop of \<^verbatim>\<open>SendUserPush\<close> over the rows: a row that fails to scan, or a send that
  fails, returns at once.
\<close>

fun SendUserPush_rows ::
  "collaborators \<Rightarrow> PushClient \<Rightarrow> event list \<Rightarrow> context \<Rightarrow> (error + device_row) list \<Rightarrow>
   string \<Rightarrow> string \<Rightarrow> string \<Rightarrow> string \<Rightarrow> error option \<times> PushClient \<times> event list" where
  "SendUserPush_rows w c tr cx [] title body imageURL externalID = (None, c, tr)"
| "SendUserPush_rows w c tr cx (Inl err # rows) title body imageURL externalID = (Some err, c, tr)"
| "SendUserPush_rows w c tr cx (Inr (rid, pushTokenAndroid, pushTokenIos) # rows)
     title body imageURL externalID =
     (case (if ns_Valid pushTokenAndroid \<and> ns_String pushTokenAndroid \<noteq> []
            then SendFirebasePush w c tr cx (ns_String pushTokenAndroid) title body imageURL externalID
            else (None, c, tr)) of
        (Some err, c1, tr1) \<Rightarrow> (Some err, c1, tr1)
      | (None, c1, tr1) \<Rightarrow>
          (case (if ns_Valid pushTokenIos \<and> ns_String pushTokenIos \<noteq> []
                 then SendApplePush w c1 tr1 cx (ns_String pushTokenIos) title body imageURL externalID
                 else (None, c1, tr1)) of
             (Some err, c2, tr2) \<Rightarrow> (Some err, c2, tr2)
           | (None, c2, tr2) \<Rightarrow> SendUserPush_rows w c2 tr2 cx rows title body imageURL externalID))"

definition SendUserPush ::
  "collaborators \<Rightarrow> PushClient \<Rightarrow> event list \<Rightarrow> context \<Rightarrow>
   string \<Rightarrow> string \<Rightarrow> string \<Rightarrow> string \<Rightarrow> string \<Rightarrow> error option \<times> PushClient \<times> event list" where
  "SendUserPush w c tr cx userID title body imageURL externalID =
     (let r = QueryContext w tr cx userID;
          tr1 = tr @ [EvQueryContext cx userID r]
      in case r of
           Inl err \<Rightarrow>
             (if errors_Is err ErrNoRows
              then (Some (ErrorsNew ''user not found''), c, tr1)
              else (Some err, c, tr1))
         | Inr rows \<Rightarrow> SendUserPush_rows w c tr1 cx rows title body imageURL externalID)"

section \<open>Request handler\<close>

definition responseJSON :: string where
  "responseJSON = ''{\"message\": \"Push notification sent successfully\"}''"

text \<open>
  The function \<^verbatim>\<open>RpcSendNotification(pushClient)\<close> returns. A Go result \<^verbatim>\<open>("", err)\<close> is
  \<open>Inl err\<close>, a result \<^verbatim>\<open>(s, nil)\<close> is \<open>Inr s\<close>.
\<close>

definition RpcSendNotification ::
  "collaborators \<Rightarrow> PushClient \<Rightarrow> event list \<Rightarrow> context \<Rightarrow> string \<Rightarrow>
   (error + string) \<times> PushClient \<times> event list" where
  "RpcSendNotification w pushClient tr cx payload =
     (case Unmarshal w payload of
        Inl err \<Rightarrow> (Inl ErrBadInput, pushClient, tr @ [EvLogDebug ''json.Unmarshal error: %v'' err])
      | Inr req \<Rightarrow>
          (if \<not> IsIOS req
           then (case SendFirebasePush w pushClient tr cx
                        (DeviceToken req) (Title req) (Body req) (ImageURL req) (ExternalID req) of
                   (Some err, c1, tr1) \<Rightarrow> (Inl err, c1, tr1)
                 | (None, c1, tr1) \<Rightarrow> (Inr responseJSON, c1, tr1))
           else (case SendApplePush w pushClient tr cx
                        (DeviceToken req) (Title req) (Body req) (ImageURL req) (ExternalID req) of
                   (Some err, c1, tr1) \<Rightarrow> (Inl err, c1, tr1)
                 | (None, c1, tr1) \<Rightarrow> (Inr responseJSON, c1, tr1))))"

section \<open>Observing the record of calls\<close>

text \<open>Which collaborator an event belongs to.\<close>

fun apns_event :: "event \<Rightarrow> bool" where
  "apns_event (EvAuthKeyFromFile _ _) = True"
| "apns_event (EvNewTokenClient _) = True"
| "apns_event (EvPushWithContext _ _ _ _) = True"
| "apns_event _ = False"

fun fcm_event :: "event \<Rightarrow> bool" where
  "fcm_event (EvNewApp _ _ _ _) = True"
| "fcm_event (EvMessaging _ _ _) = True"
| "fcm_event (EvSend _ _ _ _) = True"
| "fcm_event _ = False"

text \<open>
  The client constructions a history holds (an APNs client by its token, an FCM client
  as \<^verbatim>\<open>app.Messaging\<close> returned it), and the clients its sends went through.
\<close>

fun built_apns :: "event \<Rightarrow> Token list" where
  "built_apns (EvNewTokenClient tok) = [tok]"
| "built_apns _ = []"

fun built_fcm :: "event \<Rightarrow> messaging_Client list" where
  "built_fcm (EvMessaging _ _ (Inr cl)) = [cl]"
| "built_fcm _ = []"

fun used_apns :: "event \<Rightarrow> apns_Client list" where
  "used_apns (EvPushWithContext _ cl _ _) = [cl]"
| "used_apns _ = []"

fun used_fcm :: "event \<Rightarrow> messaging_Client list" where
  "used_fcm (EvSend _ cl _ _) = [cl]"
| "used_fcm _ = []"

definition apns_built :: "event list \<Rightarrow> Token list" where
  "apns_built tr = concat (map built_apns tr)"

definition fcm_built :: "event list \<Rightarrow> messaging_Client list" where
  "fcm_built tr = concat (map built_fcm tr)"

definition apns_used :: "event list \<Rightarrow> apns_Client list" where
  "apns_used tr = concat (map used_apns tr)"

definition fcm_used :: "event list \<Rightarrow> messaging_Client list" where
  "fcm_used tr = concat (map used_fcm tr)"

text \<open>
  The device tokens the sends of a history were addressed to, per vendor.
\<close>

fun sent_fcm :: "event \<Rightarrow> string list" where
  "sent_fcm (EvSend _ _ m _) = [m_Token m]"
| "sent_fcm _ = []"

fun sent_apns :: "event \<Rightarrow> string list" where
  "sent_apns (EvPushWithContext _ _ n _) = [n_DeviceToken n]"
| "sent_apns _ = []"

definition fcm_tokens :: "event list \<Rightarrow> string list" where
  "fcm_tokens tr = concat (map sent_fcm tr)"

definition apns_tokens :: "event list \<Rightarrow> string list" where
  "apns_tokens tr = concat (map sent_apns tr)"

text \<open>The host a credential's environment string selects.\<close>

definition selected_host :: "APNSCredentials \<Rightarrow> apns_host" where
  "selected_host a = (if Environment a = ''development'' then HostDevelopment else HostProduction)"

text \<open>
  What holds of a client and its history between calls: the credentials are the ones it
  was made with, each cached handle is the only one ever built, every send went through
  the cached handle, and the cached APNs handle points at the selected host.
\<close>

definition client_inv :: "APNSCredentials \<Rightarrow> FCMCredentials \<Rightarrow> PushClient \<Rightarrow> event list \<Rightarrow> bool" where
  "client_inv a f c tr =
     (apnsCreds c = a \<and> fcmCreds c = f
      \<and> apns_built tr = (case apnsClient c of None \<Rightarrow> [] | Some h \<Rightarrow> [cl_Token h])
      \<and> fcm_built tr = (case fcmClient c of None \<Rightarrow> [] | Some h \<Rightarrow> [h])
      \<and> list_all (\<lambda>h. apnsClient c = Some h) (apns_used tr)
      \<and> list_all (\<lambda>h. fcmClient c = Some h) (fcm_used tr)
      \<and> (case apnsClient c of None \<Rightarrow> True | Some h \<Rightarrow> cl_Host h = selected_host a))"

text \<open>
  One step from a client to its successor: no cached handle is replaced, and the
  credentials and the stored context stay as they are; and if the client and its history
  were in order before, they are in order after.
\<close>

definition keeps :: "PushClient \<Rightarrow> PushClient \<Rightarrow> bool" where
  "keeps c c1 =
     ((case apnsClient c of None \<Rightarrow> True | Some h \<Rightarrow> apnsClient c1 = Some h)
      \<and> (case fcmClient c of None \<Rightarrow> True | Some h \<Rightarrow> fcmClient c1 = Some h)
      \<and> apnsCreds c1 = apnsCreds c \<and> fcmCreds c1 = fcmCreds c \<and> ctx c1 = ctx c)"

definition step_ok ::
  "APNSCredentials \<Rightarrow> FCMCredentials \<Rightarrow> PushClient \<Rightarrow> event list \<Rightarrow> PushClient \<Rightarrow> event list \<Rightarrow> bool" where
  "step_ok a f c tr c1 tr1 = (keeps c c1 \<and> (client_inv a f c tr \<longrightarrow> client_inv a f c1 tr1))"

section \<open>The fan-out as the specification words it\<close>

text \<open>
  One send per populated token of each row, Firebase before Apple, run in order until
  the first one fails; that error is the result.
\<close>

datatype send = FirebaseSend string | AppleSend string

fun row_sends :: "device_row \<Rightarrow> send list" where
  "row_sends (rid, pushTokenAndroid, pushTokenIos) =
     (if ns_Valid pushTokenAndroid \<and> ns_String pushTokenAndroid \<noteq> []
      then [FirebaseSend (ns_String pushTokenAndroid)] else [])
     @ (if ns_Valid pushTokenIos \<and> ns_String pushTokenIos \<noteq> []
        then [AppleSend (ns_String pushTokenIos)] else [])"

fun do_send ::
  "collaborators \<Rightarrow> PushClient \<Rightarrow> event list \<Rightarrow> context \<Rightarrow> send \<Rightarrow>
   string \<Rightarrow> string \<Rightarrow> string \<Rightarrow> string \<Rightarrow> error option \<times> PushClient \<times> event list" where
  "do_send w c tr cx (FirebaseSend tok) title body imageURL externalID =
     SendFirebasePush w c tr cx tok title body imageURL externalID"
| "do_send w c tr cx (AppleSend tok) title body imageURL externalID =
     SendApplePush w c tr cx tok title body imageURL externalID"

fun run_sends ::
  "collaborators \<Rightarrow> PushClient \<Rightarrow> event list \<Rightarrow> context \<Rightarrow> send list \<Rightarrow>
   string \<Rightarrow> string \<Rightarrow> string \<Rightarrow> string \<Rightarrow> error option \<times> PushClient \<times> event list" where
  "run_sends w c tr cx [] title body imageURL externalID = (None, c, tr)"
| "run_sends w c tr cx (s # ss) title body imageURL externalID =
     (case do_send w c tr cx s title body imageURL externalID of
        (Some err, c1, tr1) \<Rightarrow> (Some err, c1, tr1)
      | (None, c1, tr1) \<Rightarrow> run_sends w c1 tr1 cx ss title body imageURL externalID)"

text \<open>
  The populated tokens of a device row, per platform, and the token of a planned send, per vendor.
\<close>

fun android_tokens :: "device_row \<Rightarrow> string list" where
  "android_tokens (rid, pushTokenAndroid, pushTokenIos) =
     (if ns_Valid pushTokenAndroid \<and> ns_String pushTokenAndroid \<noteq> [] then [ns_String pushTokenAndroid] else [])"

fun ios_tokens :: "device_row \<Rightarrow> string list" where
  "ios_tokens (rid, pushTokenAndroid, pushTokenIos) =
     (if ns_Valid pushTokenIos \<and> ns_String pushTokenIos \<noteq> [] then [ns_String pushTokenIos] else [])"

fun firebase_of :: "send \<Rightarrow> string list" where
  "firebase_of (FirebaseSend tok) = [tok]"
| "firebase_of (AppleSend _) = []"

fun apple_of :: "send \<Rightarrow> string list" where
  "apple_of (AppleSend tok) = [tok]"
| "apple_of (FirebaseSend _) = []"

section \<open>Sequences of operations on one client\<close>

datatype op =
    OpGetAPNSClient
  | OpGetFCMClient
  | OpSendApplePush "context" string string string string string
  | OpSendFirebasePush "context" string string string string string
  | OpSendUserPush "context" string string string string string
  | OpRpcSendNotification "context" string

fun exec :: "collaborators \<Rightarrow> op \<Rightarrow> PushClient \<times> event list \<Rightarrow> PushClient \<times> event list" where
  "exec w OpGetAPNSClient (c, tr) = snd (getAPNSClient w c tr)"
| "exec w OpGetFCMClient (c, tr) = snd (getFCMClient w c tr)"
| "exec w (OpSendApplePush cx d t b i x) (c, tr) = snd (SendApplePush w c tr cx d t b i x)"
| "exec w (OpSendFirebasePush cx d t b i x) (c, tr) = snd (SendFirebasePush w c tr cx d t b i x)"
| "exec w (OpSendUserPush cx u t b i x) (c, tr) = snd (SendUserPush w c tr cx u t b i x)"
| "exec w (OpRpcSendNotification cx p) (c, tr) = snd (RpcSendNotification w c tr cx p)"

fun run :: "collaborators \<Rightarrow> op list \<Rightarrow> PushClient \<times> event list \<Rightarrow> PushClient \<times> event list" where
  "run w [] s = s"
| "run w (o1 # ops) s = run w ops (exec w o1 s)"

section \<open>A concrete set of collaborators\<close>

text \<open>
  Explicit collaborators and clients on which the model is evaluated. The decoder accepts
  the example request of the specification and the empty object; the store knows user
  \<open>u1\<close> (an Android-only row and a row with both tokens) and user \<open>u2\<close> (whose first
  Android token the vendor rejects), and answers any other user with an empty row set;
  the key file and the credentials file exist at one path each; APNs answers token
  \<open>tok-down\<close> with a transport error and token \<open>tok-bad\<close> with a rejection.
\<close>

definition demo_payload :: string where
  "demo_payload = ''{\"user_id\":\"u1\",\"device_token\":\"tok-ios\",\"title\":\"Hi\",\"body\":\"there\",\"image_url\":\"\",\"external_id\":\"x1\",\"is_ios\":true}''"

definition demo_request :: NotificationRequest where
  "demo_request = \<lparr> UserID = ''u1'', DeviceToken = ''tok-ios'', Title = ''Hi'', Body = ''there'',
                     ImageURL = [], ExternalID = ''x1'', IsIOS = True \<rparr>"

definition demo_rows :: "device_row list" where
  "demo_rows =
     [(''d1'', \<lparr> ns_String = ''tok-and'', ns_Valid = True \<rparr>, \<lparr> ns_String = [], ns_Valid = False \<rparr>),
      (''d2'', \<lparr> ns_String = ''tok-and2'', ns_Valid = True \<rparr>, \<lparr> ns_String = ''tok-ios2'', ns_Valid = True \<rparr>)]"

definition failing_rows :: "device_row list" where
  "failing_rows =
     [(''d3'', \<lparr> ns_String = ''tok-bad'', ns_Valid = True \<rparr>, \<lparr> ns_String = ''tok-ios3'', ns_Valid = True \<rparr>),
      (''d4'', \<lparr> ns_String = ''tok-and4'', ns_Valid = True \<rparr>, \<lparr> ns_String = [], ns_Valid = True \<rparr>)]"

definition demo_world :: collaborators where
  "demo_world =
     \<lparr> Unmarshal = (\<lambda>p. if p = demo_payload then Inr demo_request
                         else if p = ''{}'' then Inr (demo_request\<lparr> UserID := [], DeviceToken := [], Title := [],
                                  Body := [], ExternalID := [], IsIOS := False \<rparr>)
                         else Inl (External ''invalid character'')),
       QueryContext = (\<lambda>tr cx uid. if uid = ''u1'' then Inr (map Inr demo_rows)
                                     else if uid = ''u2'' then Inr (map Inr failing_rows)
                                     else Inr []),
       AuthKeyFromFile = (\<lambda>tr path. if path = ''/keys/AuthKey.p8'' then Inr (AuthKey ''p8'')
                                    else Inl (External ''open: no such file or directory'')),
       PushWithContext = (\<lambda>tr cx cl n.
          if n_DeviceToken n = ''tok-down'' then Inl (External ''connection reset'')
          else if n_DeviceToken n = ''tok-bad'' then Inr \<lparr> StatusCode = 400, Reason = ''BadDeviceToken'' \<rparr>
          else Inr \<lparr> StatusCode = 200, Reason = [] \<rparr>),
       NewApp = (\<lambda>tr cx cfg opts. if opts = [] then Inl (External ''missing credentials file'')
                                   else Inr (FirebaseApp 1)),
       Messaging = (\<lambda>tr cx app. if cx = Ctx 9 then Inl (External ''messaging unavailable'')
                                 else Inr (MessagingClient 1)),
       Send = (\<lambda>tr cx cl m. if m_Token m = ''tok-bad'' then Inl (External ''registration-token-not-registered'')
                             else Inr ''projects/demo/messages/1'') \<rparr>"

definition demo_env :: "string \<rightharpoonup> string" where
  "demo_env = [''APNS_ENVIRONMENT'' \<mapsto> ''development'', ''APNS_TEAM_ID'' \<mapsto> ''TEAM'',
               ''APNS_TOPIC'' \<mapsto> ''com.example.app'', ''APNS_P8_AUTH_KEY_ID'' \<mapsto> ''KEY'',
               ''APNS_P8_AUTH_KEY_FILE_PATH'' \<mapsto> ''/keys/AuthKey.p8'',
               ''FCM_PROJECT_ID'' \<mapsto> ''demo'', ''FCM_CREDENTIALS_FILE_PATH'' \<mapsto> ''/keys/fcm.json'']"

definition demo_client :: PushClient where
  "demo_client = NewPushClientFromEnv (Ctx 0) demo_env"

definition bare_client :: PushClient where
  "bare_client = NewPushClientFromEnv (Ctx 0) Map.empty"

text \<open>
  A client whose APNs handle is already cached, one whose stored context makes
  \<^verbatim>\<open>app.Messaging\<close> fail, one whose credentials were changed after the handle was cached,
  one configured for production, and two sequences of operations.
\<close>

definition cached_client :: PushClient where
  "cached_client = demo_client\<lparr> apnsClient := Some \<lparr> cl_Token = \<lparr> tok_AuthKey = AuthKey ''p8'',
        tok_KeyID = ''KEY'', tok_TeamID = ''TEAM'' \<rparr>, cl_Host = HostDevelopment \<rparr> \<rparr>"

definition stalled_client :: PushClient where
  "stalled_client = NewPushClientFromEnv (Ctx 9) demo_env"

definition switched_client :: PushClient where
  "switched_client = cached_client\<lparr> apnsCreds := (apnsCreds cached_client)\<lparr> Environment := ''production'' \<rparr> \<rparr>"

definition production_client :: PushClient where
  "production_client = NewPushClientFromEnv (Ctx 0) (demo_env(''APNS_ENVIRONMENT'' \<mapsto> ''production''))"

definition demo_ops :: "op list" where
  "demo_ops = [OpSendApplePush (Ctx 1) ''tok-1'' ''Hi'' ''there'' [] ''x1'',
               OpSendFirebasePush (Ctx 2) ''tok-2'' ''Hi'' ''there'' [] ''x2'',
               OpSendUserPush (Ctx 3) ''u1'' ''Hi'' ''there'' [] ''x3'']"

definition more_ops :: "op list" where
  "more_ops = [OpRpcSendNotification (Ctx 4) demo_payload, OpGetAPNSClient, OpGetFCMClient]"

lemmas demo_defs = demo_world_def demo_client_def bare_client_def demo_env_def demo_rows_def failing_rows_def demo_request_def
  demo_payload_def NewPushClientFromEnv_def NewPushClient_def NewAPNSCredentialsFromEnv_def
  NewFCMCredentialsFromEnv_def map_index_def

lemmas code_defs = RpcSendNotification_def SendUserPush_def SendApplePush_def SendFirebasePush_def
  getAPNSClient_def getFCMClient_def apple_notification_def firebase_message_def
  NewPayload_def AlertTitle_def AlertBody_def Custom_def NewTokenClient_def Production_def Development_def
  Sent_def responseJSON_def Let_def

section \<open>Credential loader: properties\<close>

lemma map_index_missing: "env k = None \<Longrightarrow> map_index env k = []"
  by (simp add: map_index_def)

text \<open>
  C7. For every string-keyed configuration map, both loaders are total functions that
  read each field by direct key lookup: a field whose key is present holds the stored
  value unchanged, and a field whose key is missing is the empty string. The result is
  a credential record, never an error.
\<close>

theorem C7_credentials_from_env:
  "Environment (NewAPNSCredentialsFromEnv env) = (case env ''APNS_ENVIRONMENT'' of None \<Rightarrow> [] | Some v \<Rightarrow> v)
   \<and> TeamID (NewAPNSCredentialsFromEnv env) = (case env ''APNS_TEAM_ID'' of None \<Rightarrow> [] | Some v \<Rightarrow> v)
   \<and> Topic (NewAPNSCredentialsFromEnv env) = (case env ''APNS_TOPIC'' of None \<Rightarrow> [] | Some v \<Rightarrow> v)
   \<and> P8AuthKeyID (NewAPNSCredentialsFromEnv env) = (case env ''APNS_P8_AUTH_KEY_ID'' of None \<Rightarrow> [] | Some v \<Rightarrow> v)
   \<and> P8AuthKeyFilePath (NewAPNSCredentialsFromEnv env) =
       (case env ''APNS_P8_AUTH_KEY_FILE_PATH'' of None \<Rightarrow> [] | Some v \<Rightarrow> v)
   \<and> ProjectID (NewFCMCredentialsFromEnv env) = (case env ''FCM_PROJECT_ID'' of None \<Rightarrow> [] | Some v \<Rightarrow> v)
   \<and> CredentialsFilePath (NewFCMCredentialsFromEnv env) =
       (case env ''FCM_CREDENTIALS_FILE_PATH'' of None \<Rightarrow> [] | Some v \<Rightarrow> v)"
  by (simp add: NewAPNSCredentialsFromEnv_def NewFCMCredentialsFromEnv_def map_index_def)

section \<open>Lazy construction\<close>

lemma getAPNSClient_cached:
  "apnsClient c = Some h \<Longrightarrow> getAPNSClient w c tr = (Inr h, c, tr)"
  by (simp add: getAPNSClient_def)

lemma getAPNSClient_fail:
  "apnsClient c = None \<Longrightarrow> AuthKeyFromFile w tr (P8AuthKeyFilePath (apnsCreds c)) = Inl e \<Longrightarrow>
   getAPNSClient w c tr = (Inl e, c, tr @ [EvAuthKeyFromFile (P8AuthKeyFilePath (apnsCreds c)) (Inl e)])"
  by (simp add: getAPNSClient_def)

lemma getAPNSClient_build:
  "apnsClient c = None \<Longrightarrow> AuthKeyFromFile w tr (P8AuthKeyFilePath (apnsCreds c)) = Inr k \<Longrightarrow>
   getAPNSClient w c tr =
     (let tok = \<lparr> tok_AuthKey = k, tok_KeyID = P8AuthKeyID (apnsCreds c), tok_TeamID = TeamID (apnsCreds c) \<rparr>;
          cl = \<lparr> cl_Token = tok, cl_Host = selected_host (apnsCreds c) \<rparr>
      in (Inr cl, c\<lparr> apnsClient := Some cl \<rparr>,
          tr @ [EvAuthKeyFromFile (P8AuthKeyFilePath (apnsCreds c)) (Inr k), EvNewTokenClient tok]))"
  by (simp add: getAPNSClient_def selected_host_def Let_def Production_def Development_def NewTokenClient_def)

lemma getFCMClient_cached:
  "fcmClient c = Some h \<Longrightarrow> getFCMClient w c tr = (Inr h, c, tr)"
  by (simp add: getFCMClient_def)

lemma getFCMClient_fail_app:
  "fcmClient c = None \<Longrightarrow>
   NewApp w tr (ctx c) \<lparr> cfg_ProjectID = ProjectID (fcmCreds c) \<rparr> (CredentialsFilePath (fcmCreds c)) = Inl e \<Longrightarrow>
   getFCMClient w c tr =
     (Inl e, c, tr @ [EvNewApp (ctx c) \<lparr> cfg_ProjectID = ProjectID (fcmCreds c) \<rparr>
                         (CredentialsFilePath (fcmCreds c)) (Inl e)])"
  by (simp add: getFCMClient_def Let_def)

lemma getFCMClient_fail_messaging:
  "fcmClient c = None \<Longrightarrow>
   NewApp w tr (ctx c) \<lparr> cfg_ProjectID = ProjectID (fcmCreds c) \<rparr> (CredentialsFilePath (fcmCreds c)) = Inr app \<Longrightarrow>
   Messaging w (tr @ [EvNewApp (ctx c) \<lparr> cfg_ProjectID = ProjectID (fcmCreds c) \<rparr>
                         (CredentialsFilePath (fcmCreds c)) (Inr app)]) (ctx c) app = Inl e \<Longrightarrow>
   getFCMClient w c tr =
     (Inl e, c, tr @ [EvNewApp (ctx c) \<lparr> cfg_ProjectID = ProjectID (fcmCreds c) \<rparr>
                         (CredentialsFilePath (fcmCreds c)) (Inr app),
                      EvMessaging (ctx c) app (Inl e)])"
  by (simp add: getFCMClient_def Let_def)

text \<open>
  A send appends to the history at least one event, all of its own vendor, and leaves
  the other vendor's handle alone.
\<close>

lemma getAPNSClient_trace:
  "\<exists>evs. snd (snd (getAPNSClient w c tr)) = tr @ evs \<and> list_all apns_event evs
     \<and> (apnsClient c = None \<longrightarrow> evs \<noteq> [])
     \<and> fcmClient (fst (snd (getAPNSClient w c tr))) = fcmClient c"
  by (auto simp add: getAPNSClient_def Let_def split: option.splits sum.splits)

lemma getFCMClient_trace:
  "\<exists>evs. snd (snd (getFCMClient w c tr)) = tr @ evs \<and> list_all fcm_event evs
     \<and> (fcmClient c = None \<longrightarrow> evs \<noteq> [])
     \<and> apnsClient (fst (snd (getFCMClient w c tr))) = apnsClient c"
  by (auto simp add: getFCMClient_def Let_def split: option.splits sum.splits)

lemma SendApplePush_trace:
  "\<exists>evs. snd (snd (SendApplePush w c tr cx d t b i x)) = tr @ evs \<and> evs \<noteq> [] \<and> list_all apns_event evs
     \<and> fcmClient (fst (snd (SendApplePush w c tr cx d t b i x))) = fcmClient c"
proof -
  obtain r c1 tr1 where g: "getAPNSClient w c tr = (r, c1, tr1)"
    by (cases "getAPNSClient w c tr") auto
  from getAPNSClient_trace [of w c tr] g obtain evs where
    evs: "tr1 = tr @ evs" "list_all apns_event evs" "apnsClient c = None \<longrightarrow> evs \<noteq> []"
      "fcmClient c1 = fcmClient c"
    by auto
  show ?thesis
  proof (cases r)
    case (Inl e)
    with g have "apnsClient c = None"
      by (auto simp add: getAPNSClient_def Let_def split: option.splits sum.splits)
    with Inl g evs show ?thesis
      by (simp add: SendApplePush_def Let_def)
  next
    case (Inr cl)
    with g evs show ?thesis
      by (simp add: SendApplePush_def Let_def split: sum.splits)
  qed
qed

lemma SendFirebasePush_trace:
  "\<exists>evs. snd (snd (SendFirebasePush w c tr cx d t b i x)) = tr @ evs \<and> evs \<noteq> [] \<and> list_all fcm_event evs
     \<and> apnsClient (fst (snd (SendFirebasePush w c tr cx d t b i x))) = apnsClient c"
proof -
  obtain r c1 tr1 where g: "getFCMClient w c tr = (r, c1, tr1)"
    by (cases "getFCMClient w c tr") auto
  from getFCMClient_trace [of w c tr] g obtain evs where
    evs: "tr1 = tr @ evs" "list_all fcm_event evs" "fcmClient c = None \<longrightarrow> evs \<noteq> []"
      "apnsClient c1 = apnsClient c"
    by auto
  show ?thesis
  proof (cases r)
    case (Inl e)
    with g have "fcmClient c = None"
      by (auto simp add: getFCMClient_def Let_def split: option.splits sum.splits)
    with Inl g evs show ?thesis
      by (simp add: SendFirebasePush_def Let_def)
  next
    case (Inr cl)
    with g evs show ?thesis
      by (simp add: SendFirebasePush_def Let_def split: sum.splits)
  qed
qed

section \<open>Request handler: properties\<close>

text \<open>
  C1. For every payload that \<^verbatim>\<open>json.Unmarshal\<close> decodes into a request, the handler
  dispatches on \<open>IsIOS\<close>: when it is false the handler does exactly what
  \<open>SendFirebasePush\<close> does on the request's device token, title, body, image URL and
  external id, and calls only the Firebase collaborators; when it is true it does exactly
  what \<open>SendApplePush\<close> does on the same five fields, and calls only the APNs
  collaborators. When the send returns no error the handler returns the fixed literal,
  and when it returns an error the handler returns that error.
\<close>

theorem C1_handler_dispatch:
  assumes "Unmarshal w payload = Inr req"
  shows "(\<not> IsIOS req \<longrightarrow>
            RpcSendNotification w c tr cx payload =
              (case SendFirebasePush w c tr cx
                      (DeviceToken req) (Title req) (Body req) (ImageURL req) (ExternalID req) of
                 (None, c1, tr1) \<Rightarrow>
                   (Inr ''{\"message\": \"Push notification sent successfully\"}'', c1, tr1)
               | (Some err, c1, tr1) \<Rightarrow> (Inl err, c1, tr1))
            \<and> (\<exists>evs. snd (snd (RpcSendNotification w c tr cx payload)) = tr @ evs
                  \<and> evs \<noteq> [] \<and> list_all fcm_event evs))
       \<and> (IsIOS req \<longrightarrow>
            RpcSendNotification w c tr cx payload =
              (case SendApplePush w c tr cx
                      (DeviceToken req) (Title req) (Body req) (ImageURL req) (ExternalID req) of
                 (None, c1, tr1) \<Rightarrow>
                   (Inr ''{\"message\": \"Push notification sent successfully\"}'', c1, tr1)
               | (Some err, c1, tr1) \<Rightarrow> (Inl err, c1, tr1))
            \<and> (\<exists>evs. snd (snd (RpcSendNotification w c tr cx payload)) = tr @ evs
                  \<and> evs \<noteq> [] \<and> list_all apns_event evs))"
proof (cases "IsIOS req")
  case False
  let ?s = "SendFirebasePush w c tr cx (DeviceToken req) (Title req) (Body req) (ImageURL req) (ExternalID req)"
  have eq: "RpcSendNotification w c tr cx payload =
      (case ?s of (None, c1, tr1) \<Rightarrow>
                    (Inr ''{\"message\": \"Push notification sent successfully\"}'', c1, tr1)
               | (Some err, c1, tr1) \<Rightarrow> (Inl err, c1, tr1))"
    using assms False unfolding RpcSendNotification_def responseJSON_def
    by (auto split: prod.splits option.splits)
  have "snd (snd (RpcSendNotification w c tr cx payload)) = snd (snd ?s)"
    unfolding eq by (simp split: prod.splits option.splits)
  with SendFirebasePush_trace [of w c tr cx "DeviceToken req" "Title req" "Body req" "ImageURL req" "ExternalID req"]
  have "\<exists>evs. snd (snd (RpcSendNotification w c tr cx payload)) = tr @ evs
                  \<and> evs \<noteq> [] \<and> list_all fcm_event evs"
    by auto
  with eq False show ?thesis by simp
next
  case True
  let ?s = "SendApplePush w c tr cx (DeviceToken req) (Title req) (Body req) (ImageURL req) (ExternalID req)"
  have eq: "RpcSendNotification w c tr cx payload =
      (case ?s of (None, c1, tr1) \<Rightarrow>
                    (Inr ''{\"message\": \"Push notification sent successfully\"}'', c1, tr1)
               | (Some err, c1, tr1) \<Rightarrow> (Inl err, c1, tr1))"
    using assms True unfolding RpcSendNotification_def responseJSON_def
    by (auto split: prod.splits option.splits)
  have "snd (snd (RpcSendNotification w c tr cx payload)) = snd (snd ?s)"
    unfolding eq by (simp split: prod.splits option.splits)
  with SendApplePush_trace [of w c tr cx "DeviceToken req" "Title req" "Body req" "ImageURL req" "ExternalID req"]
  have "\<exists>evs. snd (snd (RpcSendNotification w c tr cx payload)) = tr @ evs
                  \<and> evs \<noteq> [] \<and> list_all apns_event evs"
    by auto
  with eq True show ?thesis by simp
qed

text \<open>
  The request of the specification's example goes to the Apple path and succeeds; the
  empty object decodes to the zero request and goes to the Firebase path.
\<close>

theorem C1_handler_dispatch_witness:
  "Unmarshal demo_world demo_payload = Inr demo_request \<and> IsIOS demo_request
   \<and> RpcSendNotification demo_world demo_client [] (Ctx 1) demo_payload =
       (case SendApplePush demo_world demo_client [] (Ctx 1) ''tok-ios'' ''Hi'' ''there'' [] ''x1'' of
          (None, c1, tr1) \<Rightarrow> (Inr ''{\"message\": \"Push notification sent successfully\"}'', c1, tr1)
        | (Some err, c1, tr1) \<Rightarrow> (Inl err, c1, tr1))
   \<and> fst (RpcSendNotification demo_world demo_client [] (Ctx 1) demo_payload) =
       Inr ''{\"message\": \"Push notification sent successfully\"}''
   \<and> Unmarshal demo_world ''{}'' = Inr (demo_request\<lparr> UserID := [], DeviceToken := [], Title := [],
                                  Body := [], ExternalID := [], IsIOS := False \<rparr>)
   \<and> fst (RpcSendNotification demo_world demo_client [] (Ctx 1) ''{}'') =
       Inr ''{\"message\": \"Push notification sent successfully\"}''
   \<and> list_all fcm_event (snd (snd (RpcSendNotification demo_world demo_client [] (Ctx 1) ''{}'')))"
proof -
  have u: "Unmarshal demo_world demo_payload = Inr demo_request"
    by (simp add: demo_world_def)
  have i: "IsIOS demo_request"
    by (simp add: demo_request_def)
  have u2: "Unmarshal demo_world ''{}'' = Inr (demo_request\<lparr> UserID := [], DeviceToken := [], Title := [],
                                  Body := [], ExternalID := [], IsIOS := False \<rparr>)"
    by (simp add: demo_world_def demo_payload_def)
  have r1: "fst (RpcSendNotification demo_world demo_client [] (Ctx 1) demo_payload) =
       Inr ''{\"message\": \"Push notification sent successfully\"}''"
    by (simp add: code_defs demo_defs)
  have r2: "RpcSendNotification demo_world demo_client [] (Ctx 1) ''{}'' =
      (Inr ''{\"message\": \"Push notification sent successfully\"}'',
       demo_client\<lparr> fcmClient := Some (MessagingClient 1) \<rparr>,
       [EvNewApp (Ctx 0) \<lparr> cfg_ProjectID = ''demo'' \<rparr> ''/keys/fcm.json'' (Inr (FirebaseApp 1)),
        EvMessaging (Ctx 0) (FirebaseApp 1) (Inr (MessagingClient 1)),
        EvSend (Ctx 1) (MessagingClient 1) (firebase_message [] [] [] [] []) (Inr ''projects/demo/messages/1'')])"
    by (simp add: code_defs demo_defs)
  from C1_handler_dispatch [OF u, of demo_client "[]" "Ctx 1"] i
  have "RpcSendNotification demo_world demo_client [] (Ctx 1) demo_payload =
       (case SendApplePush demo_world demo_client [] (Ctx 1) ''tok-ios'' ''Hi'' ''there'' [] ''x1'' of
          (None, c1, tr1) \<Rightarrow> (Inr ''{\"message\": \"Push notification sent successfully\"}'', c1, tr1)
        | (Some err, c1, tr1) \<Rightarrow> (Inl err, c1, tr1))"
    by (simp add: demo_request_def)
  with u i u2 r1 r2 show ?thesis by simp
qed

text \<open>
  C4. For every payload that fails to decode, the handler logs the decoder's error at
  debug level, returns \<open>ErrBadInput\<close> whatever that error was, leaves the client as it
  is and calls no vendor collaborator: the log entry is the only event.
\<close>

theorem C4_unparseable_payload:
  "Unmarshal w payload = Inl perr \<Longrightarrow>
   RpcSendNotification w c tr cx payload =
     (Inl ErrBadInput, c, tr @ [EvLogDebug ''json.Unmarshal error: %v'' perr])"
  by (simp add: RpcSendNotification_def)

theorem C4_unparseable_payload_witness:
  "Unmarshal demo_world ''{\"is_ios\": 1'' = Inl (External ''invalid character'')
   \<and> RpcSendNotification demo_world demo_client [] (Ctx 1) ''{\"is_ios\": 1'' =
       (Inl ErrBadInput, demo_client, [EvLogDebug ''json.Unmarshal error: %v'' (External ''invalid character'')])"
proof -
  have u: "Unmarshal demo_world ''{\"is_ios\": 1'' = Inl (External ''invalid character'')"
    by (simp add: demo_world_def demo_payload_def)
  from C4_unparseable_payload [OF u, of demo_client "[]" "Ctx 1"] u show ?thesis by simp
qed

section \<open>Push client: single sends\<close>

text \<open>
  C9. \<open>SendApplePush\<close> builds a notification with the given device token, the
  credential's topic, the title and body as the alert, and the custom keys
  \<open>image_url\<close> and \<open>external_id\<close>; \<open>SendFirebasePush\<close> builds a message with title,
  body and image URL in the notification object, the given device token, and a data
  map whose only key is \<open>external_id\<close>. Whenever the client is obtained, that
  notification, or that message, is what is handed to the vendor.
\<close>

theorem C9_vendor_payloads:
  "apple_notification c deviceToken title body imageURL externalID =
     \<lparr> n_DeviceToken = deviceToken, n_Topic = Topic (apnsCreds c),
       n_Payload = \<lparr> alert_Title = title, alert_Body = body,
                     custom = [''image_url'' \<mapsto> imageURL, ''external_id'' \<mapsto> externalID] \<rparr> \<rparr>
   \<and> firebase_message deviceToken title body imageURL externalID =
     \<lparr> m_Notification = \<lparr> mn_Title = title, mn_Body = body, mn_ImageURL = imageURL \<rparr>,
       m_Token = deviceToken, m_Data = [''external_id'' \<mapsto> externalID] \<rparr>
   \<and> dom (m_Data (firebase_message deviceToken title body imageURL externalID)) = {''external_id''}
   \<and> (\<forall>cl c1 tr1. getAPNSClient w c tr = (Inr cl, c1, tr1) \<longrightarrow>
         snd (snd (SendApplePush w c tr cx deviceToken title body imageURL externalID)) =
           tr1 @ [EvPushWithContext cx cl (apple_notification c deviceToken title body imageURL externalID)
                    (PushWithContext w tr1 cx cl
                       (apple_notification c deviceToken title body imageURL externalID))])
   \<and> (\<forall>cl c1 tr1. getFCMClient w c tr = (Inr cl, c1, tr1) \<longrightarrow>
         snd (snd (SendFirebasePush w c tr cx deviceToken title body imageURL externalID)) =
           tr1 @ [EvSend cx cl (firebase_message deviceToken title body imageURL externalID)
                    (Send w tr1 cx cl (firebase_message deviceToken title body imageURL externalID))])"
proof -
  have a: "apple_notification c deviceToken title body imageURL externalID =
     \<lparr> n_DeviceToken = deviceToken, n_Topic = Topic (apnsCreds c),
       n_Payload = \<lparr> alert_Title = title, alert_Body = body,
                     custom = [''image_url'' \<mapsto> imageURL, ''external_id'' \<mapsto> externalID] \<rparr> \<rparr>"
    by (simp add: apple_notification_def NewPayload_def AlertTitle_def AlertBody_def Custom_def)
  have f: "firebase_message deviceToken title body imageURL externalID =
     \<lparr> m_Notification = \<lparr> mn_Title = title, mn_Body = body, mn_ImageURL = imageURL \<rparr>,
       m_Token = deviceToken, m_Data = [''external_id'' \<mapsto> externalID] \<rparr>"
    by (simp add: firebase_message_def)
  have d: "dom (m_Data (firebase_message deviceToken title body imageURL externalID)) = {''external_id''}"
    by (simp add: firebase_message_def)
  have sa: "\<forall>cl c1 tr1. getAPNSClient w c tr = (Inr cl, c1, tr1) \<longrightarrow>
         snd (snd (SendApplePush w c tr cx deviceToken title body imageURL externalID)) =
           tr1 @ [EvPushWithContext cx cl (apple_notification c deviceToken title body imageURL externalID)
                    (PushWithContext w tr1 cx cl
                       (apple_notification c deviceToken title body imageURL externalID))]"
    by (simp add: SendApplePush_def Let_def split: sum.splits)
  have sf: "\<forall>cl c1 tr1. getFCMClient w c tr = (Inr cl, c1, tr1) \<longrightarrow>
         snd (snd (SendFirebasePush w c tr cx deviceToken title body imageURL externalID)) =
           tr1 @ [EvSend cx cl (firebase_message deviceToken title body imageURL externalID)
                    (Send w tr1 cx cl (firebase_message deviceToken title body imageURL externalID))]"
    by (simp add: SendFirebasePush_def Let_def split: sum.splits)
  from a f d sa sf show ?thesis by blast
qed

theorem C9_vendor_payloads_witness:
  "getAPNSClient demo_world demo_client [] =
     (Inr \<lparr> cl_Token = \<lparr> tok_AuthKey = AuthKey ''p8'', tok_KeyID = ''KEY'', tok_TeamID = ''TEAM'' \<rparr>,
            cl_Host = HostDevelopment \<rparr>,
      demo_client\<lparr> apnsClient := Some \<lparr> cl_Token = \<lparr> tok_AuthKey = AuthKey ''p8'', tok_KeyID = ''KEY'',
                                                    tok_TeamID = ''TEAM'' \<rparr>,
                                         cl_Host = HostDevelopment \<rparr> \<rparr>,
      [EvAuthKeyFromFile ''/keys/AuthKey.p8'' (Inr (AuthKey ''p8'')),
       EvNewTokenClient \<lparr> tok_AuthKey = AuthKey ''p8'', tok_KeyID = ''KEY'', tok_TeamID = ''TEAM'' \<rparr>])
   \<and> snd (snd (SendApplePush demo_world demo_client [] (Ctx 1) ''tok-1'' ''Hi'' ''there'' ''http://img'' ''x1'')) =
       [EvAuthKeyFromFile ''/keys/AuthKey.p8'' (Inr (AuthKey ''p8'')),
        EvNewTokenClient \<lparr> tok_AuthKey = AuthKey ''p8'', tok_KeyID = ''KEY'', tok_TeamID = ''TEAM'' \<rparr>,
        EvPushWithContext (Ctx 1)
         \<lparr> cl_Token = \<lparr> tok_AuthKey = AuthKey ''p8'', tok_KeyID = ''KEY'', tok_TeamID = ''TEAM'' \<rparr>,
           cl_Host = HostDevelopment \<rparr>
         \<lparr> n_DeviceToken = ''tok-1'', n_Topic = ''com.example.app'',
           n_Payload = \<lparr> alert_Title = ''Hi'', alert_Body = ''there'',
                         custom = [''image_url'' \<mapsto> ''http://img'', ''external_id'' \<mapsto> ''x1''] \<rparr> \<rparr>
         (Inr \<lparr> StatusCode = 200, Reason = [] \<rparr>)]
   \<and> getFCMClient demo_world demo_client [] =
       (Inr (MessagingClient 1), demo_client\<lparr> fcmClient := Some (MessagingClient 1) \<rparr>,
        [EvNewApp (Ctx 0) \<lparr> cfg_ProjectID = ''demo'' \<rparr> ''/keys/fcm.json'' (Inr (FirebaseApp 1)),
         EvMessaging (Ctx 0) (FirebaseApp 1) (Inr (MessagingClient 1))])
   \<and> snd (snd (SendFirebasePush demo_world demo_client [] (Ctx 1) ''tok-1'' ''Hi'' ''there'' ''http://img'' ''x1'')) =
       [EvNewApp (Ctx 0) \<lparr> cfg_ProjectID = ''demo'' \<rparr> ''/keys/fcm.json'' (Inr (FirebaseApp 1)),
        EvMessaging (Ctx 0) (FirebaseApp 1) (Inr (MessagingClient 1)),
        EvSend (Ctx 1) (MessagingClient 1)
         \<lparr> m_Notification = \<lparr> mn_Title = ''Hi'', mn_Body = ''there'', mn_ImageURL = ''http://img'' \<rparr>,
           m_Token = ''tok-1'', m_Data = [''external_id'' \<mapsto> ''x1''] \<rparr>
         (Inr ''projects/demo/messages/1'')]"
proof -
  let ?cl = "\<lparr> cl_Token = \<lparr> tok_AuthKey = AuthKey ''p8'', tok_KeyID = ''KEY'', tok_TeamID = ''TEAM'' \<rparr>,
               cl_Host = HostDevelopment \<rparr>"
  let ?tr1 = "[EvAuthKeyFromFile ''/keys/AuthKey.p8'' (Inr (AuthKey ''p8'')),
       EvNewTokenClient \<lparr> tok_AuthKey = AuthKey ''p8'', tok_KeyID = ''KEY'', tok_TeamID = ''TEAM'' \<rparr>]"
  let ?tr2 = "[EvNewApp (Ctx 0) \<lparr> cfg_ProjectID = ''demo'' \<rparr> ''/keys/fcm.json'' (Inr (FirebaseApp 1)),
         EvMessaging (Ctx 0) (FirebaseApp 1) (Inr (MessagingClient 1))]"
  note inst = C9_vendor_payloads [where c = demo_client and deviceToken = "''tok-1''" and title = "''Hi''"
      and body = "''there''" and imageURL = "''http://img''" and externalID = "''x1''"
      and w = demo_world and tr = "[]" and cx = "Ctx 1"]
  have g: "getAPNSClient demo_world demo_client [] = (Inr ?cl, demo_client\<lparr> apnsClient := Some ?cl \<rparr>, ?tr1)"
    by (simp add: getAPNSClient_def Let_def Production_def Development_def NewTokenClient_def demo_defs)
  have gf: "getFCMClient demo_world demo_client [] =
      (Inr (MessagingClient 1), demo_client\<lparr> fcmClient := Some (MessagingClient 1) \<rparr>, ?tr2)"
    by (simp add: getFCMClient_def Let_def demo_defs)
  have t: "Topic (apnsCreds demo_client) = ''com.example.app''"
    by (simp add: demo_defs)
  have p: "PushWithContext demo_world ?tr1 (Ctx 1) ?cl
             (apple_notification demo_client ''tok-1'' ''Hi'' ''there'' ''http://img'' ''x1'')
           = Inr \<lparr> StatusCode = 200, Reason = [] \<rparr>"
    by (simp add: demo_world_def apple_notification_def)
  have s: "Send demo_world ?tr2 (Ctx 1) (MessagingClient 1)
             (firebase_message ''tok-1'' ''Hi'' ''there'' ''http://img'' ''x1'')
           = Inr ''projects/demo/messages/1''"
    by (simp add: demo_world_def firebase_message_def)
  from inst g have a1: "snd (snd (SendApplePush demo_world demo_client [] (Ctx 1) ''tok-1'' ''Hi'' ''there'' ''http://img'' ''x1'')) =
      ?tr1 @ [EvPushWithContext (Ctx 1) ?cl
                (apple_notification demo_client ''tok-1'' ''Hi'' ''there'' ''http://img'' ''x1'')
                (PushWithContext demo_world ?tr1 (Ctx 1) ?cl
                   (apple_notification demo_client ''tok-1'' ''Hi'' ''there'' ''http://img'' ''x1''))]"
    by blast
  from inst gf have a2: "snd (snd (SendFirebasePush demo_world demo_client [] (Ctx 1) ''tok-1'' ''Hi'' ''there'' ''http://img'' ''x1'')) =
      ?tr2 @ [EvSend (Ctx 1) (MessagingClient 1)
                (firebase_message ''tok-1'' ''Hi'' ''there'' ''http://img'' ''x1'')
                (Send demo_world ?tr2 (Ctx 1) (MessagingClient 1)
                   (firebase_message ''tok-1'' ''Hi'' ''there'' ''http://img'' ''x1''))]"
    by blast
  from inst have n1: "apple_notification demo_client ''tok-1'' ''Hi'' ''there'' ''http://img'' ''x1'' =
     \<lparr> n_DeviceToken = ''tok-1'', n_Topic = Topic (apnsCreds demo_client),
       n_Payload = \<lparr> alert_Title = ''Hi'', alert_Body = ''there'',
                     custom = [''image_url'' \<mapsto> ''http://img'', ''external_id'' \<mapsto> ''x1''] \<rparr> \<rparr>"
    by blast
  from inst have n2: "firebase_message ''tok-1'' ''Hi'' ''there'' ''http://img'' ''x1'' =
     \<lparr> m_Notification = \<lparr> mn_Title = ''Hi'', mn_Body = ''there'', mn_ImageURL = ''http://img'' \<rparr>,
       m_Token = ''tok-1'', m_Data = [''external_id'' \<mapsto> ''x1''] \<rparr>"
    by blast
  have b1: "snd (snd (SendApplePush demo_world demo_client [] (Ctx 1) ''tok-1'' ''Hi'' ''there'' ''http://img'' ''x1'')) =
      ?tr1 @ [EvPushWithContext (Ctx 1) ?cl
         \<lparr> n_DeviceToken = ''tok-1'', n_Topic = ''com.example.app'',
           n_Payload = \<lparr> alert_Title = ''Hi'', alert_Body = ''there'',
                         custom = [''image_url'' \<mapsto> ''http://img'', ''external_id'' \<mapsto> ''x1''] \<rparr> \<rparr>
         (Inr \<lparr> StatusCode = 200, Reason = [] \<rparr>)]"
    using a1 p n1 t by simp
  have b2: "snd (snd (SendFirebasePush demo_world demo_client [] (Ctx 1) ''tok-1'' ''Hi'' ''there'' ''http://img'' ''x1'')) =
      ?tr2 @ [EvSend (Ctx 1) (MessagingClient 1)
         \<lparr> m_Notification = \<lparr> mn_Title = ''Hi'', mn_Body = ''there'', mn_ImageURL = ''http://img'' \<rparr>,
           m_Token = ''tok-1'', m_Data = [''external_id'' \<mapsto> ''x1''] \<rparr>
         (Inr ''projects/demo/messages/1'')]"
    using a2 s n2 by simp
  from g gf b1 b2 show ?thesis by simp
qed

text \<open>
  C3 as worded does not hold: an error returned by the push call itself comes back
  wrapped in \<open>PushNotificationDeliveryFailed\<close>, not as it is.
\<close>

theorem C3_transport_error_counterexample:
  "PushWithContext demo_world
      [EvAuthKeyFromFile ''/keys/AuthKey.p8'' (Inr (AuthKey ''p8'')),
       EvNewTokenClient \<lparr> tok_AuthKey = AuthKey ''p8'', tok_KeyID = ''KEY'', tok_TeamID = ''TEAM'' \<rparr>]
      (Ctx 1)
      \<lparr> cl_Token = \<lparr> tok_AuthKey = AuthKey ''p8'', tok_KeyID = ''KEY'', tok_TeamID = ''TEAM'' \<rparr>,
        cl_Host = HostDevelopment \<rparr>
      (apple_notification demo_client ''tok-down'' ''Hi'' ''there'' [] ''x1'')
     = Inl (External ''connection reset'')
   \<and> fst (SendApplePush demo_world demo_client [] (Ctx 1) ''tok-down'' ''Hi'' ''there'' [] ''x1'')
       = Some (PushNotificationDeliveryFailed (External ''connection reset''))
   \<and> fst (SendApplePush demo_world demo_client [] (Ctx 1) ''tok-down'' ''Hi'' ''there'' [] ''x1'')
       \<noteq> Some (External ''connection reset'')"
  by (simp add: code_defs demo_defs)

text \<open>
  C3, amended. \<open>SendApplePush\<close> returns as it is only an error of the lazy client
  construction. An error returned by the vendor push call is wrapped in
  \<open>PushNotificationDeliveryFailed\<close> carrying that error, and a response that was not sent
  is wrapped in \<open>PushNotificationDeliveryFailed\<close> carrying a new error made of the
  provider's reason; a sent response gives no error.
\<close>

theorem C3_apple_failure_shapes:
  "(\<forall>e c1 tr1. getAPNSClient w c tr = (Inl e, c1, tr1) \<longrightarrow>
       fst (SendApplePush w c tr cx d t b i x) = Some e)
   \<and> (\<forall>cl c1 tr1 e. getAPNSClient w c tr = (Inr cl, c1, tr1) \<longrightarrow>
         PushWithContext w tr1 cx cl (apple_notification c d t b i x) = Inl e \<longrightarrow>
         fst (SendApplePush w c tr cx d t b i x) = Some (PushNotificationDeliveryFailed e))
   \<and> (\<forall>cl c1 tr1 response. getAPNSClient w c tr = (Inr cl, c1, tr1) \<longrightarrow>
         PushWithContext w tr1 cx cl (apple_notification c d t b i x) = Inr response \<longrightarrow>
         \<not> Sent response \<longrightarrow>
         fst (SendApplePush w c tr cx d t b i x) =
           Some (PushNotificationDeliveryFailed (ErrorsNew (Reason response))))
   \<and> (\<forall>cl c1 tr1 response. getAPNSClient w c tr = (Inr cl, c1, tr1) \<longrightarrow>
         PushWithContext w tr1 cx cl (apple_notification c d t b i x) = Inr response \<longrightarrow>
         Sent response \<longrightarrow>
         fst (SendApplePush w c tr cx d t b i x) = None)"
  by (simp add: SendApplePush_def Let_def)

theorem C3_apple_failure_shapes_witness:
  "fst (SendApplePush demo_world bare_client [] (Ctx 1) ''tok-ios'' ''Hi'' ''there'' [] ''x1'')
     = Some (External ''open: no such file or directory'')
   \<and> fst (SendApplePush demo_world cached_client [] (Ctx 1) ''tok-down'' ''Hi'' ''there'' [] ''x1'')
     = Some (PushNotificationDeliveryFailed (External ''connection reset''))
   \<and> fst (SendApplePush demo_world cached_client [] (Ctx 1) ''tok-bad'' ''Hi'' ''there'' [] ''x1'')
     = Some (PushNotificationDeliveryFailed (ErrorsNew ''BadDeviceToken''))
   \<and> fst (SendApplePush demo_world cached_client [] (Ctx 1) ''tok-ios'' ''Hi'' ''there'' [] ''x1'')
     = None"
proof -
  let ?cl = "\<lparr> cl_Token = \<lparr> tok_AuthKey = AuthKey ''p8'', tok_KeyID = ''KEY'', tok_TeamID = ''TEAM'' \<rparr>,
               cl_Host = HostDevelopment \<rparr>"
  have g0: "getAPNSClient demo_world bare_client [] =
      (Inl (External ''open: no such file or directory''), bare_client,
       [EvAuthKeyFromFile [] (Inl (External ''open: no such file or directory''))])"
    by (simp add: getAPNSClient_def demo_defs)
  have g1: "getAPNSClient demo_world cached_client [] = (Inr ?cl, cached_client, [])"
    by (simp add: getAPNSClient_def cached_client_def)
  have p1: "PushWithContext demo_world [] (Ctx 1) ?cl
              (apple_notification cached_client ''tok-down'' ''Hi'' ''there'' [] ''x1'')
            = Inl (External ''connection reset'')"
    by (simp add: demo_world_def apple_notification_def)
  have p2: "PushWithContext demo_world [] (Ctx 1) ?cl
              (apple_notification cached_client ''tok-bad'' ''Hi'' ''there'' [] ''x1'')
            = Inr \<lparr> StatusCode = 400, Reason = ''BadDeviceToken'' \<rparr>"
    by (simp add: demo_world_def apple_notification_def)
  have p3: "PushWithContext demo_world [] (Ctx 1) ?cl
              (apple_notification cached_client ''tok-ios'' ''Hi'' ''there'' [] ''x1'')
            = Inr \<lparr> StatusCode = 200, Reason = [] \<rparr>"
    by (simp add: demo_world_def apple_notification_def)
  have s2: "\<not> Sent \<lparr> StatusCode = 400, Reason = ''BadDeviceToken'' \<rparr>"
    by (simp add: Sent_def)
  have s3: "Sent \<lparr> StatusCode = 200, Reason = [] \<rparr>"
    by (simp add: Sent_def)
  have a: "fst (SendApplePush demo_world bare_client [] (Ctx 1) ''tok-ios'' ''Hi'' ''there'' [] ''x1'')
     = Some (External ''open: no such file or directory'')"
    using C3_apple_failure_shapes [where w = demo_world and c = bare_client and tr = "[]"
        and cx = "Ctx 1" and d = "''tok-ios''" and t = "''Hi''" and b = "''there''" and i = "[]"
        and x = "''x1''"] g0
    by blast
  have b: "fst (SendApplePush demo_world cached_client [] (Ctx 1) ''tok-down'' ''Hi'' ''there'' [] ''x1'')
     = Some (PushNotificationDeliveryFailed (External ''connection reset''))"
    using C3_apple_failure_shapes [where w = demo_world and c = cached_client and tr = "[]"
        and cx = "Ctx 1" and d = "''tok-down''" and t = "''Hi''" and b = "''there''" and i = "[]"
        and x = "''x1''"] g1 p1
    by blast
  have c: "fst (SendApplePush demo_world cached_client [] (Ctx 1) ''tok-bad'' ''Hi'' ''there'' [] ''x1'')
     = Some (PushNotificationDeliveryFailed (ErrorsNew (Reason \<lparr> StatusCode = 400, Reason = ''BadDeviceToken'' \<rparr>)))"
    using C3_apple_failure_shapes [where w = demo_world and c = cached_client and tr = "[]"
        and cx = "Ctx 1" and d = "''tok-bad''" and t = "''Hi''" and b = "''there''" and i = "[]"
        and x = "''x1''"] g1 p2 s2
    by blast
  have d: "fst (SendApplePush demo_world cached_client [] (Ctx 1) ''tok-ios'' ''Hi'' ''there'' [] ''x1'')
     = None"
    using C3_apple_failure_shapes [where w = demo_world and c = cached_client and tr = "[]"
        and cx = "Ctx 1" and d = "''tok-ios''" and t = "''Hi''" and b = "''there''" and i = "[]"
        and x = "''x1''"] g1 p3 s3
    by blast
  from a b c d show ?thesis by simp
qed

text \<open>
  C10. When the lazy construction fails (reading the key file for APNs; creating the
  app or its messaging client for FCM), the send returns the construction error as it
  is, hands nothing to the vendor's send, and leaves the client unchanged, so the cached
  field is still empty. Whenever the cached field is empty, a send starts with a
  construction attempt.
\<close>

theorem C10_construction_failure:
  "(\<forall>e. apnsClient c = None \<longrightarrow>
        AuthKeyFromFile w tr (P8AuthKeyFilePath (apnsCreds c)) = Inl e \<longrightarrow>
        SendApplePush w c tr cx d t b i x =
          (Some e, c, tr @ [EvAuthKeyFromFile (P8AuthKeyFilePath (apnsCreds c)) (Inl e)]))
   \<and> (\<forall>e. fcmClient c = None \<longrightarrow>
        NewApp w tr (ctx c) \<lparr> cfg_ProjectID = ProjectID (fcmCreds c) \<rparr> (CredentialsFilePath (fcmCreds c)) = Inl e \<longrightarrow>
        SendFirebasePush w c tr cx d t b i x =
          (Some e, c, tr @ [EvNewApp (ctx c) \<lparr> cfg_ProjectID = ProjectID (fcmCreds c) \<rparr>
                              (CredentialsFilePath (fcmCreds c)) (Inl e)]))
   \<and> (\<forall>app e. fcmClient c = None \<longrightarrow>
        NewApp w tr (ctx c) \<lparr> cfg_ProjectID = ProjectID (fcmCreds c) \<rparr> (CredentialsFilePath (fcmCreds c)) = Inr app \<longrightarrow>
        Messaging w (tr @ [EvNewApp (ctx c) \<lparr> cfg_ProjectID = ProjectID (fcmCreds c) \<rparr>
                              (CredentialsFilePath (fcmCreds c)) (Inr app)]) (ctx c) app = Inl e \<longrightarrow>
        SendFirebasePush w c tr cx d t b i x =
          (Some e, c, tr @ [EvNewApp (ctx c) \<lparr> cfg_ProjectID = ProjectID (fcmCreds c) \<rparr>
                              (CredentialsFilePath (fcmCreds c)) (Inr app),
                            EvMessaging (ctx c) app (Inl e)]))
   \<and> (apnsClient c = None \<longrightarrow>
        (\<exists>evs. snd (snd (SendApplePush w c tr cx d t b i x)) =
           tr @ EvAuthKeyFromFile (P8AuthKeyFilePath (apnsCreds c))
                  (AuthKeyFromFile w tr (P8AuthKeyFilePath (apnsCreds c))) # evs))
   \<and> (fcmClient c = None \<longrightarrow>
        (\<exists>evs. snd (snd (SendFirebasePush w c tr cx d t b i x)) =
           tr @ EvNewApp (ctx c) \<lparr> cfg_ProjectID = ProjectID (fcmCreds c) \<rparr> (CredentialsFilePath (fcmCreds c))
                  (NewApp w tr (ctx c) \<lparr> cfg_ProjectID = ProjectID (fcmCreds c) \<rparr>
                     (CredentialsFilePath (fcmCreds c))) # evs))"
proof -
  have a: "\<forall>e. apnsClient c = None \<longrightarrow>
        AuthKeyFromFile w tr (P8AuthKeyFilePath (apnsCreds c)) = Inl e \<longrightarrow>
        SendApplePush w c tr cx d t b i x =
          (Some e, c, tr @ [EvAuthKeyFromFile (P8AuthKeyFilePath (apnsCreds c)) (Inl e)])"
    by (simp add: SendApplePush_def getAPNSClient_fail)
  have f1: "\<forall>e. fcmClient c = None \<longrightarrow>
        NewApp w tr (ctx c) \<lparr> cfg_ProjectID = ProjectID (fcmCreds c) \<rparr> (CredentialsFilePath (fcmCreds c)) = Inl e \<longrightarrow>
        SendFirebasePush w c tr cx d t b i x =
          (Some e, c, tr @ [EvNewApp (ctx c) \<lparr> cfg_ProjectID = ProjectID (fcmCreds c) \<rparr>
                              (CredentialsFilePath (fcmCreds c)) (Inl e)])"
    by (simp add: SendFirebasePush_def getFCMClient_fail_app)
  have f2: "\<forall>app e. fcmClient c = None \<longrightarrow>
        NewApp w tr (ctx c) \<lparr> cfg_ProjectID = ProjectID (fcmCreds c) \<rparr> (CredentialsFilePath (fcmCreds c)) = Inr app \<longrightarrow>
        Messaging w (tr @ [EvNewApp (ctx c) \<lparr> cfg_ProjectID = ProjectID (fcmCreds c) \<rparr>
                              (CredentialsFilePath (fcmCreds c)) (Inr app)]) (ctx c) app = Inl e \<longrightarrow>
        SendFirebasePush w c tr cx d t b i x =
          (Some e, c, tr @ [EvNewApp (ctx c) \<lparr> cfg_ProjectID = ProjectID (fcmCreds c) \<rparr>
                              (CredentialsFilePath (fcmCreds c)) (Inr app),
                            EvMessaging (ctx c) app (Inl e)])"
    by (simp add: SendFirebasePush_def getFCMClient_fail_messaging)
  have ra: "apnsClient c = None \<longrightarrow>
        (\<exists>evs. snd (snd (SendApplePush w c tr cx d t b i x)) =
           tr @ EvAuthKeyFromFile (P8AuthKeyFilePath (apnsCreds c))
                  (AuthKeyFromFile w tr (P8AuthKeyFilePath (apnsCreds c))) # evs)"
    by (simp add: SendApplePush_def getAPNSClient_def Let_def split: sum.splits)
  have rf: "fcmClient c = None \<longrightarrow>
        (\<exists>evs. snd (snd (SendFirebasePush w c tr cx d t b i x)) =
           tr @ EvNewApp (ctx c) \<lparr> cfg_ProjectID = ProjectID (fcmCreds c) \<rparr> (CredentialsFilePath (fcmCreds c))
                  (NewApp w tr (ctx c) \<lparr> cfg_ProjectID = ProjectID (fcmCreds c) \<rparr>
                     (CredentialsFilePath (fcmCreds c))) # evs)"
    by (simp add: SendFirebasePush_def getFCMClient_def Let_def split: sum.splits)
  from a f1 f2 ra rf show ?thesis by blast
qed

theorem C10_construction_failure_witness:
  "apnsClient bare_client = None \<and> fcmClient bare_client = None \<and> fcmClient stalled_client = None
   \<and> SendApplePush demo_world bare_client [] (Ctx 1) ''tok-1'' ''Hi'' ''there'' [] ''x1'' =
       (Some (External ''open: no such file or directory''), bare_client,
        [EvAuthKeyFromFile [] (Inl (External ''open: no such file or directory''))])
   \<and> SendFirebasePush demo_world bare_client [] (Ctx 1) ''tok-1'' ''Hi'' ''there'' [] ''x1'' =
       (Some (External ''missing credentials file''), bare_client,
        [EvNewApp (Ctx 0) \<lparr> cfg_ProjectID = [] \<rparr> [] (Inl (External ''missing credentials file''))])
   \<and> SendFirebasePush demo_world stalled_client [] (Ctx 1) ''tok-1'' ''Hi'' ''there'' [] ''x1'' =
       (Some (External ''messaging unavailable''), stalled_client,
        [EvNewApp (Ctx 9) \<lparr> cfg_ProjectID = ''demo'' \<rparr> ''/keys/fcm.json'' (Inr (FirebaseApp 1)),
         EvMessaging (Ctx 9) (FirebaseApp 1) (Inl (External ''messaging unavailable''))])
   \<and> SendApplePush demo_world bare_client
         [EvAuthKeyFromFile [] (Inl (External ''open: no such file or directory''))]
         (Ctx 2) ''tok-1'' ''Hi'' ''there'' [] ''x1'' =
       (Some (External ''open: no such file or directory''), bare_client,
        [EvAuthKeyFromFile [] (Inl (External ''open: no such file or directory'')),
         EvAuthKeyFromFile [] (Inl (External ''open: no such file or directory''))])"
proof -
  have n: "apnsClient bare_client = None" "fcmClient bare_client = None" "fcmClient stalled_client = None"
    by (simp_all add: demo_defs stalled_client_def)
  have p: "P8AuthKeyFilePath (apnsCreds bare_client) = []"
      "ProjectID (fcmCreds bare_client) = []" "CredentialsFilePath (fcmCreds bare_client) = []"
      "ctx bare_client = Ctx 0"
      "ProjectID (fcmCreds stalled_client) = ''demo''"
      "CredentialsFilePath (fcmCreds stalled_client) = ''/keys/fcm.json''"
      "ctx stalled_client = Ctx 9"
    by (simp_all add: demo_defs stalled_client_def)
  have k: "\<And>tr. AuthKeyFromFile demo_world tr [] = Inl (External ''open: no such file or directory'')"
    by (simp add: demo_world_def)
  have a1: "\<And>tr cx. NewApp demo_world tr cx \<lparr> cfg_ProjectID = [] \<rparr> [] = Inl (External ''missing credentials file'')"
    by (simp add: demo_world_def)
  have a2: "NewApp demo_world [] (Ctx 9) \<lparr> cfg_ProjectID = ''demo'' \<rparr> ''/keys/fcm.json'' = Inr (FirebaseApp 1)"
    by (simp add: demo_world_def)
  have m: "\<And>tr. Messaging demo_world tr (Ctx 9) (FirebaseApp 1) = Inl (External ''messaging unavailable'')"
    by (simp add: demo_world_def)
  note i1 = C10_construction_failure [where c = bare_client and w = demo_world and tr = "[]" and cx = "Ctx 1"
      and d = "''tok-1''" and t = "''Hi''" and b = "''there''" and i = "[]" and x = "''x1''"]
  note i2 = C10_construction_failure [where c = stalled_client and w = demo_world and tr = "[]" and cx = "Ctx 1"
      and d = "''tok-1''" and t = "''Hi''" and b = "''there''" and i = "[]" and x = "''x1''"]
  note i3 = C10_construction_failure [where c = bare_client and w = demo_world
      and tr = "[EvAuthKeyFromFile [] (Inl (External ''open: no such file or directory''))]" and cx = "Ctx 2"
      and d = "''tok-1''" and t = "''Hi''" and b = "''there''" and i = "[]" and x = "''x1''"]
  have r1: "SendApplePush demo_world bare_client [] (Ctx 1) ''tok-1'' ''Hi'' ''there'' [] ''x1'' =
       (Some (External ''open: no such file or directory''), bare_client,
        [EvAuthKeyFromFile [] (Inl (External ''open: no such file or directory''))])"
    using i1 n p k by simp
  have r2: "SendFirebasePush demo_world bare_client [] (Ctx 1) ''tok-1'' ''Hi'' ''there'' [] ''x1'' =
       (Some (External ''missing credentials file''), bare_client,
        [EvNewApp (Ctx 0) \<lparr> cfg_ProjectID = [] \<rparr> [] (Inl (External ''missing credentials file''))])"
    using i1 n p a1 by simp
  have r3: "SendFirebasePush demo_world stalled_client [] (Ctx 1) ''tok-1'' ''Hi'' ''there'' [] ''x1'' =
       (Some (External ''messaging unavailable''), stalled_client,
        [EvNewApp (Ctx 9) \<lparr> cfg_ProjectID = ''demo'' \<rparr> ''/keys/fcm.json'' (Inr (FirebaseApp 1)),
         EvMessaging (Ctx 9) (FirebaseApp 1) (Inl (External ''messaging unavailable''))])"
    using i2 n p a2 m by simp
  have r4: "SendApplePush demo_world bare_client
         [EvAuthKeyFromFile [] (Inl (External ''open: no such file or directory''))]
         (Ctx 2) ''tok-1'' ''Hi'' ''there'' [] ''x1'' =
       (Some (External ''open: no such file or directory''), bare_client,
        [EvAuthKeyFromFile [] (Inl (External ''open: no such file or directory'')),
         EvAuthKeyFromFile [] (Inl (External ''open: no such file or directory''))])"
    using i3 n p k by simp
  from n r1 r2 r3 r4 show ?thesis by simp
qed

section \<open>Device lookup\<close>

text \<open>
  What \<open>SendUserPush\<close> does with each answer of the store. The "user not found" error
  is produced only when the query call itself fails with \<^verbatim>\<open>sql.ErrNoRows\<close>. A query that
  succeeds with no rows runs the loop zero times.
\<close>

lemma SendUserPush_ErrNoRows:
  "QueryContext w tr cx userID = Inl err \<Longrightarrow> errors_Is err ErrNoRows \<Longrightarrow>
   SendUserPush w c tr cx userID title body imageURL externalID =
     (Some (ErrorsNew ''user not found''), c, tr @ [EvQueryContext cx userID (Inl err)])"
  by (simp add: SendUserPush_def)

lemma SendUserPush_query_error:
  "QueryContext w tr cx userID = Inl err \<Longrightarrow> \<not> errors_Is err ErrNoRows \<Longrightarrow>
   SendUserPush w c tr cx userID title body imageURL externalID =
     (Some err, c, tr @ [EvQueryContext cx userID (Inl err)])"
  by (simp add: SendUserPush_def)

lemma SendUserPush_no_rows:
  "QueryContext w tr cx userID = Inr [] \<Longrightarrow>
   SendUserPush w c tr cx userID title body imageURL externalID =
     (None, c, tr @ [EvQueryContext cx userID (Inr [])])"
  by (simp add: SendUserPush_def)

text \<open>
  C2. \<^verbatim>\<open>QueryContext\<close> of \<^verbatim>\<open>database/sql\<close> answers a query that matches no row with an
  empty row set and no error. For such a user \<open>SendUserPush\<close> calls neither vendor
  and returns no error, where the specification asks for a "user not found" error.
\<close>

theorem C2_no_row_returns_nil:
  "QueryContext demo_world [] (Ctx 1) ''u0'' = Inr []
   \<and> SendUserPush demo_world demo_client [] (Ctx 1) ''u0'' ''Hi'' ''there'' [] ''x1'' =
       (None, demo_client, [EvQueryContext (Ctx 1) ''u0'' (Inr [])])"
  by (simp add: SendUserPush_def demo_world_def)

section \<open>Fan-out over the device rows\<close>

lemma run_sends_append:
  "run_sends w c tr cx (pre @ post) t b i x =
     (case run_sends w c tr cx pre t b i x of
        (Some err, c1, tr1) \<Rightarrow> (Some err, c1, tr1)
      | (None, c1, tr1) \<Rightarrow> run_sends w c1 tr1 cx post t b i x)"
proof (induction pre arbitrary: c tr)
  case Nil
  show ?case by simp
next
  case (Cons s pre)
  show ?case
  proof (cases "do_send w c tr cx s t b i x")
    case (fields r c1 tr1)
    with Cons.IH [of c1 tr1] show ?thesis
      by (cases r) simp_all
  qed
qed

lemma run_sends_abort:
  assumes "run_sends w c tr cx pre t b i x = (None, c1, tr1)"
    and "do_send w c1 tr1 cx s t b i x = (Some err, c2, tr2)"
  shows "run_sends w c tr cx (pre @ s # post) t b i x = (Some err, c2, tr2)"
  using assms by (simp add: run_sends_append)

lemma SendUserPush_rows_refines:
  "SendUserPush_rows w c tr cx (map Inr rows) t b i x =
     run_sends w c tr cx (concat (map row_sends rows)) t b i x"
proof (induction rows arbitrary: c tr)
  case Nil
  show ?case by simp
next
  case (Cons row rows)
  obtain rid a p where row: "row = (rid, a, p)"
    by (cases row) auto
  show ?case
  proof (cases "ns_Valid a \<and> ns_String a \<noteq> []")
    case android: True
    obtain r1 c1 tr1 where f: "SendFirebasePush w c tr cx (ns_String a) t b i x = (r1, c1, tr1)"
      by (cases "SendFirebasePush w c tr cx (ns_String a) t b i x") auto
    show ?thesis
    proof (cases r1)
      case (Some err)
      with row android f show ?thesis by (simp add: run_sends_append)
    next
      case None
      show ?thesis
      proof (cases "ns_Valid p \<and> ns_String p \<noteq> []")
        case ios: True
        obtain r2 c2 tr2 where g: "SendApplePush w c1 tr1 cx (ns_String p) t b i x = (r2, c2, tr2)"
          by (cases "SendApplePush w c1 tr1 cx (ns_String p) t b i x") auto
        from row android f None ios g Cons.IH [of c2 tr2] show ?thesis
          by (cases r2) (simp_all add: run_sends_append)
      next
        case False
        with row android f None Cons.IH [of c1 tr1] show ?thesis
          by (auto simp add: run_sends_append)
      qed
    qed
  next
    case no_android: False
    show ?thesis
    proof (cases "ns_Valid p \<and> ns_String p \<noteq> []")
      case ios: True
      obtain r2 c2 tr2 where g: "SendApplePush w c tr cx (ns_String p) t b i x = (r2, c2, tr2)"
        by (cases "SendApplePush w c tr cx (ns_String p) t b i x") auto
      from row no_android ios g Cons.IH [of c2 tr2] show ?thesis
        by (cases r2) (auto simp add: run_sends_append)
    next
      case False
      with row no_android Cons.IH [of c tr] show ?thesis
        by (auto simp add: run_sends_append)
    qed
  qed
qed

lemma tokens_append [simp]:
  "fcm_tokens (tr @ evs) = fcm_tokens tr @ fcm_tokens evs"
  "apns_tokens (tr @ evs) = apns_tokens tr @ apns_tokens evs"
  by (simp_all add: fcm_tokens_def apns_tokens_def)

lemma tokens_Nil [simp]: "fcm_tokens [] = []" "apns_tokens [] = []"
  by (simp_all add: fcm_tokens_def apns_tokens_def)

lemma tokens_Cons [simp]:
  "fcm_tokens (ev # tr) = sent_fcm ev @ fcm_tokens tr"
  "apns_tokens (ev # tr) = sent_apns ev @ apns_tokens tr"
  by (simp_all add: fcm_tokens_def apns_tokens_def)

lemma getAPNSClient_tokens:
  "getAPNSClient w c tr = (r, c1, tr1) \<Longrightarrow> fcm_tokens tr1 = fcm_tokens tr \<and> apns_tokens tr1 = apns_tokens tr"
  by (auto simp add: getAPNSClient_def Let_def split: option.splits sum.splits)

lemma getFCMClient_tokens:
  "getFCMClient w c tr = (r, c1, tr1) \<Longrightarrow> fcm_tokens tr1 = fcm_tokens tr \<and> apns_tokens tr1 = apns_tokens tr"
  by (auto simp add: getFCMClient_def Let_def split: option.splits sum.splits)

lemma SendApplePush_tokens:
  assumes "SendApplePush w c tr cx d t b i x = (None, c1, tr1)"
  shows "fcm_tokens tr1 = fcm_tokens tr \<and> apns_tokens tr1 = apns_tokens tr @ [d]"
proof -
  obtain g cg trg where g: "getAPNSClient w c tr = (g, cg, trg)"
    by (cases "getAPNSClient w c tr") auto
  have n: "n_DeviceToken (apple_notification c d t b i x) = d"
    by (simp add: apple_notification_def)
  from assms g getAPNSClient_tokens [OF g] n show ?thesis
    by (auto simp add: SendApplePush_def Let_def split: sum.splits if_splits)
qed

lemma SendFirebasePush_tokens:
  assumes "SendFirebasePush w c tr cx d t b i x = (None, c1, tr1)"
  shows "fcm_tokens tr1 = fcm_tokens tr @ [d] \<and> apns_tokens tr1 = apns_tokens tr"
proof -
  obtain g cg trg where g: "getFCMClient w c tr = (g, cg, trg)"
    by (cases "getFCMClient w c tr") auto
  have n: "m_Token (firebase_message d t b i x) = d"
    by (simp add: firebase_message_def)
  from assms g getFCMClient_tokens [OF g] n show ?thesis
    by (auto simp add: SendFirebasePush_def Let_def split: sum.splits)
qed

lemma run_sends_tokens:
  "run_sends w c tr cx plan t b i x = (None, c1, tr1) \<Longrightarrow>
   fcm_tokens tr1 = fcm_tokens tr @ concat (map firebase_of plan)
   \<and> apns_tokens tr1 = apns_tokens tr @ concat (map apple_of plan)"
proof (induction plan arbitrary: c tr)
  case Nil
  then show ?case by simp
next
  case (Cons s plan)
  obtain r c2 tr2 where d: "do_send w c tr cx s t b i x = (r, c2, tr2)"
    by (cases "do_send w c tr cx s t b i x") auto
  with Cons.prems have r: "r = None" and rest: "run_sends w c2 tr2 cx plan t b i x = (None, c1, tr1)"
    by (auto split: option.splits)
  have "fcm_tokens tr2 = fcm_tokens tr @ firebase_of s \<and> apns_tokens tr2 = apns_tokens tr @ apple_of s"
    using d r by (cases s) (auto dest: SendApplePush_tokens SendFirebasePush_tokens)
  with Cons.IH [OF rest] show ?case by simp
qed

lemma plan_tokens:
  "concat (map firebase_of (concat (map row_sends rows))) = concat (map android_tokens rows)"
  "concat (map apple_of (concat (map row_sends rows))) = concat (map ios_tokens rows)"
  by (induction rows) auto

text \<open>
  C5. For every sequence of scanned device rows, \<open>SendUserPush\<close> is the run, in order
  and up to the first failure, of one Firebase send per row whose Android token is valid
  and non-empty and one Apple send per row whose iOS token is valid and non-empty,
  Firebase first within a row. When it returns no error, the Firebase sends went to
  exactly the Android tokens of the rows and the Apple sends to exactly their iOS
  tokens, in row order. When a send fails, its error is the result as it is, and the
  client and the history are those right after that send: nothing later is sent.
\<close>

theorem C5_fan_out:
  assumes "QueryContext w tr cx userID = Inr (map Inr rows)"
  shows "SendUserPush w c tr cx userID t b i x =
           run_sends w c (tr @ [EvQueryContext cx userID (Inr (map Inr rows))]) cx
             (concat (map row_sends rows)) t b i x
         \<and> (\<forall>c1 tr1. SendUserPush w c tr cx userID t b i x = (None, c1, tr1) \<longrightarrow>
               fcm_tokens tr1 = fcm_tokens tr @ concat (map android_tokens rows)
               \<and> apns_tokens tr1 = apns_tokens tr @ concat (map ios_tokens rows))
         \<and> (\<forall>pre s post c1 tr1 err c2 tr2.
               concat (map row_sends rows) = pre @ s # post \<longrightarrow>
               run_sends w c (tr @ [EvQueryContext cx userID (Inr (map Inr rows))]) cx pre t b i x
                 = (None, c1, tr1) \<longrightarrow>
               do_send w c1 tr1 cx s t b i x = (Some err, c2, tr2) \<longrightarrow>
               SendUserPush w c tr cx userID t b i x = (Some err, c2, tr2))"
proof -
  let ?tr0 = "tr @ [EvQueryContext cx userID (Inr (map Inr rows))]"
  have eq: "SendUserPush w c tr cx userID t b i x =
           run_sends w c ?tr0 cx (concat (map row_sends rows)) t b i x"
    using assms by (simp add: SendUserPush_def SendUserPush_rows_refines)
  have ok: "\<forall>c1 tr1. SendUserPush w c tr cx userID t b i x = (None, c1, tr1) \<longrightarrow>
               fcm_tokens tr1 = fcm_tokens tr @ concat (map android_tokens rows)
               \<and> apns_tokens tr1 = apns_tokens tr @ concat (map ios_tokens rows)"
  proof (intro allI impI)
    fix c1 tr1
    assume "SendUserPush w c tr cx userID t b i x = (None, c1, tr1)"
    with eq have "run_sends w c ?tr0 cx (concat (map row_sends rows)) t b i x = (None, c1, tr1)"
      by simp
    from run_sends_tokens [OF this] show "fcm_tokens tr1 = fcm_tokens tr @ concat (map android_tokens rows)
               \<and> apns_tokens tr1 = apns_tokens tr @ concat (map ios_tokens rows)"
      by (simp add: plan_tokens)
  qed
  have abort: "\<forall>pre s post c1 tr1 err c2 tr2.
               concat (map row_sends rows) = pre @ s # post \<longrightarrow>
               run_sends w c ?tr0 cx pre t b i x = (None, c1, tr1) \<longrightarrow>
               do_send w c1 tr1 cx s t b i x = (Some err, c2, tr2) \<longrightarrow>
               SendUserPush w c tr cx userID t b i x = (Some err, c2, tr2)"
    unfolding eq using run_sends_abort by auto
  from eq ok abort show ?thesis by blast
qed

text \<open>
  User \<open>u1\<close> has an Android-only row and a row with both tokens: two Firebase sends
  and one Apple send. For user \<open>u2\<close> the first Firebase send is rejected: its error is
  returned and neither the Apple send of that row nor the next row is reached.
\<close>

theorem C5_fan_out_witness:
  "QueryContext demo_world [] (Ctx 1) ''u1'' = Inr (map Inr demo_rows)
   \<and> concat (map row_sends demo_rows) =
       [FirebaseSend ''tok-and'', FirebaseSend ''tok-and2'', AppleSend ''tok-ios2'']
   \<and> fst (SendUserPush demo_world demo_client [] (Ctx 1) ''u1'' ''Hi'' ''there'' [] ''x1'') = None
   \<and> fcm_tokens (snd (snd (SendUserPush demo_world demo_client [] (Ctx 1) ''u1'' ''Hi'' ''there'' [] ''x1'')))
       = [''tok-and'', ''tok-and2'']
   \<and> apns_tokens (snd (snd (SendUserPush demo_world demo_client [] (Ctx 1) ''u1'' ''Hi'' ''there'' [] ''x1'')))
       = [''tok-ios2'']
   \<and> QueryContext demo_world [] (Ctx 1) ''u2'' = Inr (map Inr failing_rows)
   \<and> concat (map row_sends failing_rows) =
       [FirebaseSend ''tok-bad'', AppleSend ''tok-ios3'', FirebaseSend ''tok-and4'']
   \<and> SendUserPush demo_world demo_client [] (Ctx 1) ''u2'' ''Hi'' ''there'' [] ''x1'' =
       (Some (PushNotificationDeliveryFailed (External ''registration-token-not-registered'')),
        demo_client\<lparr> fcmClient := Some (MessagingClient 1) \<rparr>,
        [EvQueryContext (Ctx 1) ''u2'' (Inr (map Inr failing_rows)),
         EvNewApp (Ctx 0) \<lparr> cfg_ProjectID = ''demo'' \<rparr> ''/keys/fcm.json'' (Inr (FirebaseApp 1)),
         EvMessaging (Ctx 0) (FirebaseApp 1) (Inr (MessagingClient 1)),
         EvSend (Ctx 1) (MessagingClient 1) (firebase_message ''tok-bad'' ''Hi'' ''there'' [] ''x1'')
           (Inl (External ''registration-token-not-registered''))])"
proof -
  have q1: "QueryContext demo_world [] (Ctx 1) ''u1'' = Inr (map Inr demo_rows)"
    by (simp add: demo_world_def)
  have q2: "QueryContext demo_world [] (Ctx 1) ''u2'' = Inr (map Inr failing_rows)"
    by (simp add: demo_world_def)
  have p1: "concat (map row_sends demo_rows) =
       [FirebaseSend ''tok-and'', FirebaseSend ''tok-and2'', AppleSend ''tok-ios2'']"
    by (simp add: demo_rows_def)
  have p2: "concat (map row_sends failing_rows) =
       [] @ FirebaseSend ''tok-bad'' # [AppleSend ''tok-ios3'', FirebaseSend ''tok-and4'']"
    by (simp add: failing_rows_def)
  note i1 = C5_fan_out [OF q1, where c = demo_client and t = "''Hi''" and b = "''there''" and i = "[]"
      and x = "''x1''"]
  note i2 = C5_fan_out [OF q2, where c = demo_client and t = "''Hi''" and b = "''there''" and i = "[]"
      and x = "''x1''"]
  obtain c1 tr1 where s1: "SendUserPush demo_world demo_client [] (Ctx 1) ''u1'' ''Hi'' ''there'' [] ''x1''
      = (None, c1, tr1)"
    by (simp add: code_defs demo_defs)
  from i1 s1 have t1: "fcm_tokens tr1 = [''tok-and'', ''tok-and2'']" "apns_tokens tr1 = [''tok-ios2'']"
    by (simp_all add: demo_rows_def)
  have d: "do_send demo_world demo_client ([] @ [EvQueryContext (Ctx 1) ''u2'' (Inr (map Inr failing_rows))])
             (Ctx 1) (FirebaseSend ''tok-bad'') ''Hi'' ''there'' [] ''x1'' =
       (Some (PushNotificationDeliveryFailed (External ''registration-token-not-registered'')),
        demo_client\<lparr> fcmClient := Some (MessagingClient 1) \<rparr>,
        [EvQueryContext (Ctx 1) ''u2'' (Inr (map Inr failing_rows)),
         EvNewApp (Ctx 0) \<lparr> cfg_ProjectID = ''demo'' \<rparr> ''/keys/fcm.json'' (Inr (FirebaseApp 1)),
         EvMessaging (Ctx 0) (FirebaseApp 1) (Inr (MessagingClient 1)),
         EvSend (Ctx 1) (MessagingClient 1) (firebase_message ''tok-bad'' ''Hi'' ''there'' [] ''x1'')
           (Inl (External ''registration-token-not-registered''))])"
    by (simp add: SendFirebasePush_def getFCMClient_def Let_def demo_world_def demo_client_def
        NewPushClientFromEnv_def NewPushClient_def NewFCMCredentialsFromEnv_def map_index_def demo_env_def
        firebase_message_def)
  have r0: "run_sends demo_world demo_client ([] @ [EvQueryContext (Ctx 1) ''u2'' (Inr (map Inr failing_rows))])
              (Ctx 1) [] ''Hi'' ''there'' [] ''x1'' =
            (None, demo_client, [] @ [EvQueryContext (Ctx 1) ''u2'' (Inr (map Inr failing_rows))])"
    by simp
  from i2 p2 r0 d
  have s2: "SendUserPush demo_world demo_client [] (Ctx 1) ''u2'' ''Hi'' ''there'' [] ''x1'' =
       (Some (PushNotificationDeliveryFailed (External ''registration-token-not-registered'')),
        demo_client\<lparr> fcmClient := Some (MessagingClient 1) \<rparr>,
        [EvQueryContext (Ctx 1) ''u2'' (Inr (map Inr failing_rows)),
         EvNewApp (Ctx 0) \<lparr> cfg_ProjectID = ''demo'' \<rparr> ''/keys/fcm.json'' (Inr (FirebaseApp 1)),
         EvMessaging (Ctx 0) (FirebaseApp 1) (Inr (MessagingClient 1)),
         EvSend (Ctx 1) (MessagingClient 1) (firebase_message ''tok-bad'' ''Hi'' ''there'' [] ''x1'')
           (Inl (External ''registration-token-not-registered''))])"
    by blast
  from q1 q2 p1 p2 s1 t1 s2 show ?thesis by simp
qed

section \<open>The cached handles over sequences of operations\<close>

lemma built_used_append [simp]:
  "apns_built (tr @ evs) = apns_built tr @ apns_built evs"
  "fcm_built (tr @ evs) = fcm_built tr @ fcm_built evs"
  "apns_used (tr @ evs) = apns_used tr @ apns_used evs"
  "fcm_used (tr @ evs) = fcm_used tr @ fcm_used evs"
  by (simp_all add: apns_built_def fcm_built_def apns_used_def fcm_used_def)

lemma built_used_Nil [simp]:
  "apns_built [] = []" "fcm_built [] = []" "apns_used [] = []" "fcm_used [] = []"
  by (simp_all add: apns_built_def fcm_built_def apns_used_def fcm_used_def)

lemma built_used_Cons [simp]:
  "apns_built (ev # tr) = built_apns ev @ apns_built tr"
  "fcm_built (ev # tr) = built_fcm ev @ fcm_built tr"
  "apns_used (ev # tr) = used_apns ev @ apns_used tr"
  "fcm_used (ev # tr) = used_fcm ev @ fcm_used tr"
  by (simp_all add: apns_built_def fcm_built_def apns_used_def fcm_used_def)

lemma list_all_never: "list_all (\<lambda>h. False) xs = (xs = [])"
  by (cases xs) simp_all

lemma keeps_refl [simp]: "keeps c c"
  by (simp add: keeps_def split: option.splits)

lemma keeps_trans: "keeps c c1 \<Longrightarrow> keeps c1 c2 \<Longrightarrow> keeps c c2"
  by (auto simp add: keeps_def split: option.splits)

lemma getAPNSClient_keeps: "getAPNSClient w c tr = (r, c1, tr1) \<Longrightarrow> keeps c c1"
  by (auto simp add: getAPNSClient_def keeps_def Let_def split: option.splits sum.splits)

lemma getFCMClient_keeps: "getFCMClient w c tr = (r, c1, tr1) \<Longrightarrow> keeps c c1"
  by (auto simp add: getFCMClient_def keeps_def Let_def split: option.splits sum.splits)

lemma SendApplePush_keeps: "SendApplePush w c tr cx d t b i x = (r, c1, tr1) \<Longrightarrow> keeps c c1"
  by (auto simp add: SendApplePush_def Let_def split: prod.splits sum.splits if_splits
      dest: getAPNSClient_keeps)

lemma SendFirebasePush_keeps: "SendFirebasePush w c tr cx d t b i x = (r, c1, tr1) \<Longrightarrow> keeps c c1"
  by (auto simp add: SendFirebasePush_def Let_def split: prod.splits sum.splits
      dest: getFCMClient_keeps)

lemma step_ok_refl [simp]: "step_ok a f c tr c tr"
  by (simp add: step_ok_def)

lemma step_ok_trans: "step_ok a f c tr c1 tr1 \<Longrightarrow> step_ok a f c1 tr1 c2 tr2 \<Longrightarrow> step_ok a f c tr c2 tr2"
  by (auto simp add: step_ok_def intro: keeps_trans)

lemma getAPNSClient_inv:
  "getAPNSClient w c tr = (r, c1, tr1) \<Longrightarrow> client_inv a f c tr \<Longrightarrow>
   client_inv a f c1 tr1 \<and> (case r of Inl _ \<Rightarrow> True | Inr h \<Rightarrow> apnsClient c1 = Some h)"
  by (auto simp add: getAPNSClient_def client_inv_def selected_host_def Let_def list_all_never
      Production_def Development_def NewTokenClient_def
      split: option.splits sum.splits)

lemma getFCMClient_inv:
  "getFCMClient w c tr = (r, c1, tr1) \<Longrightarrow> client_inv a f c tr \<Longrightarrow>
   client_inv a f c1 tr1 \<and> (case r of Inl _ \<Rightarrow> True | Inr h \<Rightarrow> fcmClient c1 = Some h)"
  by (auto simp add: getFCMClient_def client_inv_def Let_def list_all_never
      split: option.splits sum.splits)

lemma client_inv_push:
  "client_inv a f c tr \<Longrightarrow> apnsClient c = Some h \<Longrightarrow>
   client_inv a f c (tr @ [EvPushWithContext cx h n r])"
  by (simp add: client_inv_def)

lemma client_inv_send:
  "client_inv a f c tr \<Longrightarrow> fcmClient c = Some h \<Longrightarrow>
   client_inv a f c (tr @ [EvSend cx h m r])"
  by (simp add: client_inv_def)

lemma SendApplePush_inv:
  assumes "SendApplePush w c tr cx d t b i x = (r, c1, tr1)" and "client_inv a f c tr"
  shows "client_inv a f c1 tr1"
proof -
  obtain g cg trg where g: "getAPNSClient w c tr = (g, cg, trg)"
    by (cases "getAPNSClient w c tr") auto
  from getAPNSClient_inv [OF g assms(2)]
  have inv: "client_inv a f cg trg" and h: "case g of Inl _ \<Rightarrow> True | Inr h \<Rightarrow> apnsClient cg = Some h"
    by simp_all
  show ?thesis
  proof (cases g)
    case (Inl e)
    with assms(1) g inv show ?thesis by (simp add: SendApplePush_def)
  next
    case (Inr cl)
    with h have "apnsClient cg = Some cl" by simp
    from client_inv_push [OF inv this] assms(1) g Inr show ?thesis
      by (auto simp add: SendApplePush_def Let_def split: sum.splits if_splits)
  qed
qed

lemma SendFirebasePush_inv:
  assumes "SendFirebasePush w c tr cx d t b i x = (r, c1, tr1)" and "client_inv a f c tr"
  shows "client_inv a f c1 tr1"
proof -
  obtain g cg trg where g: "getFCMClient w c tr = (g, cg, trg)"
    by (cases "getFCMClient w c tr") auto
  from getFCMClient_inv [OF g assms(2)]
  have inv: "client_inv a f cg trg" and h: "case g of Inl _ \<Rightarrow> True | Inr h \<Rightarrow> fcmClient cg = Some h"
    by simp_all
  show ?thesis
  proof (cases g)
    case (Inl e)
    with assms(1) g inv show ?thesis by (simp add: SendFirebasePush_def)
  next
    case (Inr cl)
    with h have "fcmClient cg = Some cl" by simp
    from client_inv_send [OF inv this] assms(1) g Inr show ?thesis
      by (auto simp add: SendFirebasePush_def Let_def split: sum.splits)
  qed
qed

lemma SendApplePush_step:
  "SendApplePush w c tr cx d t b i x = (r, c1, tr1) \<Longrightarrow> step_ok a f c tr c1 tr1"
  by (simp add: step_ok_def SendApplePush_keeps SendApplePush_inv)

lemma SendFirebasePush_step:
  "SendFirebasePush w c tr cx d t b i x = (r, c1, tr1) \<Longrightarrow> step_ok a f c tr c1 tr1"
  by (simp add: step_ok_def SendFirebasePush_keeps SendFirebasePush_inv)

lemma SendUserPush_rows_step:
  "SendUserPush_rows w c tr cx rows t b i x = (r, c1, tr1) \<Longrightarrow> step_ok a f c tr c1 tr1"
proof (induction rows arbitrary: c tr)
  case Nil
  then show ?case by simp
next
  case (Cons row rows)
  show ?case
  proof (cases row)
    case (Inl err)
    with Cons.prems show ?thesis by simp
  next
    case (Inr fields)
    obtain rid pa ps where fields: "fields = (rid, pa, ps)"
      by (cases fields) auto
    let ?fb = "if ns_Valid pa \<and> ns_String pa \<noteq> []
               then SendFirebasePush w c tr cx (ns_String pa) t b i x else (None, c, tr)"
    obtain r1 ca tra where fb: "?fb = (r1, ca, tra)"
      by (cases ?fb) auto
    have s1: "step_ok a f c tr ca tra"
      using fb by (auto split: if_splits dest: SendFirebasePush_step)
    show ?thesis
    proof (cases r1)
      case (Some err)
      with Cons.prems Inr fields fb s1 show ?thesis by simp
    next
      case None
      let ?ap = "if ns_Valid ps \<and> ns_String ps \<noteq> []
                 then SendApplePush w ca tra cx (ns_String ps) t b i x else (None, ca, tra)"
      obtain r2 cb trb where ap: "?ap = (r2, cb, trb)"
        by (cases ?ap) auto
      have s2: "step_ok a f ca tra cb trb"
        using ap by (auto split: if_splits dest: SendApplePush_step)
      show ?thesis
      proof (cases r2)
        case (Some err)
        with Cons.prems Inr fields fb None ap have "c1 = cb" "tr1 = trb"
          by simp_all
        with s1 s2 show ?thesis by (blast intro: step_ok_trans)
      next
        case n2: None
        with Cons.prems Inr fields fb None ap
        have "SendUserPush_rows w cb trb cx rows t b i x = (r, c1, tr1)"
          by simp
        from Cons.IH [OF this] s1 s2 show ?thesis
          by (blast intro: step_ok_trans)
      qed
    qed
  qed
qed

lemma client_inv_other:
  "client_inv a f c tr \<Longrightarrow> client_inv a f c (tr @ [EvQueryContext cx u q])"
  "client_inv a f c tr \<Longrightarrow> client_inv a f c (tr @ [EvLogDebug m e])"
  by (simp_all add: client_inv_def)

lemma SendUserPush_step:
  assumes "SendUserPush w c tr cx u t b i x = (r, c1, tr1)"
  shows "step_ok a f c tr c1 tr1"
proof -
  let ?q = "QueryContext w tr cx u"
  have s0: "step_ok a f c tr c (tr @ [EvQueryContext cx u ?q])"
    by (simp add: step_ok_def client_inv_other)
  show ?thesis
  proof (cases ?q)
    case (Inl err)
    with assms s0 show ?thesis
      by (auto simp add: SendUserPush_def Let_def split: if_splits)
  next
    case (Inr rows)
    with assms have "SendUserPush_rows w c (tr @ [EvQueryContext cx u ?q]) cx rows t b i x = (r, c1, tr1)"
      by (simp add: SendUserPush_def Let_def)
    from SendUserPush_rows_step [OF this] s0 show ?thesis
      by (blast intro: step_ok_trans)
  qed
qed

lemma RpcSendNotification_step:
  assumes "RpcSendNotification w c tr cx payload = (r, c1, tr1)"
  shows "step_ok a f c tr c1 tr1"
proof (cases "Unmarshal w payload")
  case (Inl err)
  with assms show ?thesis
    by (auto simp add: RpcSendNotification_def step_ok_def client_inv_other)
next
  case (Inr req)
  show ?thesis
  proof (cases "IsIOS req")
    case True
    obtain r2 c2 tr2 where s: "SendApplePush w c tr cx (DeviceToken req) (Title req) (Body req)
        (ImageURL req) (ExternalID req) = (r2, c2, tr2)"
      by (cases "SendApplePush w c tr cx (DeviceToken req) (Title req) (Body req)
        (ImageURL req) (ExternalID req)") auto
    with assms Inr True have "c1 = c2" "tr1 = tr2"
      by (auto simp add: RpcSendNotification_def split: option.splits)
    with SendApplePush_step [OF s] show ?thesis by simp
  next
    case False
    obtain r2 c2 tr2 where s: "SendFirebasePush w c tr cx (DeviceToken req) (Title req) (Body req)
        (ImageURL req) (ExternalID req) = (r2, c2, tr2)"
      by (cases "SendFirebasePush w c tr cx (DeviceToken req) (Title req) (Body req)
        (ImageURL req) (ExternalID req)") auto
    with assms Inr False have "c1 = c2" "tr1 = tr2"
      by (auto simp add: RpcSendNotification_def split: option.splits)
    with SendFirebasePush_step [OF s] show ?thesis by simp
  qed
qed

lemma exec_step: "exec w opn (c, tr) = (c1, tr1) \<Longrightarrow> step_ok a f c tr c1 tr1"
proof (cases opn)
  case OpGetAPNSClient
  assume "exec w opn (c, tr) = (c1, tr1)"
  with OpGetAPNSClient obtain r where g: "getAPNSClient w c tr = (r, c1, tr1)"
    by (cases "getAPNSClient w c tr") auto
  from getAPNSClient_keeps [OF g] getAPNSClient_inv [OF g] show ?thesis
    by (simp add: step_ok_def)
next
  case OpGetFCMClient
  assume "exec w opn (c, tr) = (c1, tr1)"
  with OpGetFCMClient obtain r where g: "getFCMClient w c tr = (r, c1, tr1)"
    by (cases "getFCMClient w c tr") auto
  from getFCMClient_keeps [OF g] getFCMClient_inv [OF g] show ?thesis
    by (simp add: step_ok_def)
next
  case (OpSendApplePush cx d t b i x)
  assume "exec w opn (c, tr) = (c1, tr1)"
  with OpSendApplePush obtain r where "SendApplePush w c tr cx d t b i x = (r, c1, tr1)"
    by (cases "SendApplePush w c tr cx d t b i x") auto
  then show ?thesis by (rule SendApplePush_step)
next
  case (OpSendFirebasePush cx d t b i x)
  assume "exec w opn (c, tr) = (c1, tr1)"
  with OpSendFirebasePush obtain r where "SendFirebasePush w c tr cx d t b i x = (r, c1, tr1)"
    by (cases "SendFirebasePush w c tr cx d t b i x") auto
  then show ?thesis by (rule SendFirebasePush_step)
next
  case (OpSendUserPush cx u t b i x)
  assume "exec w opn (c, tr) = (c1, tr1)"
  with OpSendUserPush obtain r where "SendUserPush w c tr cx u t b i x = (r, c1, tr1)"
    by (cases "SendUserPush w c tr cx u t b i x") auto
  then show ?thesis by (rule SendUserPush_step)
next
  case (OpRpcSendNotification cx p)
  assume "exec w opn (c, tr) = (c1, tr1)"
  with OpRpcSendNotification obtain r where "RpcSendNotification w c tr cx p = (r, c1, tr1)"
    by (cases "RpcSendNotification w c tr cx p") auto
  then show ?thesis by (rule RpcSendNotification_step)
qed

lemma run_step: "run w ops (c, tr) = (c1, tr1) \<Longrightarrow> step_ok a f c tr c1 tr1"
proof (induction ops arbitrary: c tr)
  case Nil
  then show ?case by simp
next
  case (Cons opn ops)
  obtain c2 tr2 where e: "exec w opn (c, tr) = (c2, tr2)"
    by (cases "exec w opn (c, tr)") auto
  with Cons.prems have "run w ops (c2, tr2) = (c1, tr1)" by simp
  from Cons.IH [OF this] exec_step [OF e] show ?case
    by (blast intro: step_ok_trans)
qed

lemma run_append: "run w (ops @ ops2) s = run w ops2 (run w ops s)"
  by (induction ops arbitrary: s) simp_all

lemma client_inv_fresh: "client_inv a f (NewPushClient cx a f) []"
  by (simp add: client_inv_def NewPushClient_def)

lemma run_fresh_inv:
  "client_inv a f (fst (run w ops (NewPushClient cx a f, []))) (snd (run w ops (NewPushClient cx a f, [])))"
proof -
  obtain c1 tr1 where r: "run w ops (NewPushClient cx a f, []) = (c1, tr1)"
    by (cases "run w ops (NewPushClient cx a f, [])") auto
  from run_step [OF r, of a f] client_inv_fresh [of a f cx] r show ?thesis
    by (simp add: step_ok_def)
qed

text \<open>
  C6. After any sequence of operations on a freshly made client, run one after the
  other, each vendor's client has been constructed at most once; each cached field is
  empty or holds the one client that was constructed; every send in the history went
  through the handle now cached; and a handle, once cached, is still the cached one
  after any further operations.
\<close>

theorem C6_single_handle:
  "length (apns_built (snd (run w ops (NewPushClient cx a f, [])))) \<le> 1
   \<and> length (fcm_built (snd (run w ops (NewPushClient cx a f, [])))) \<le> 1
   \<and> apns_built (snd (run w ops (NewPushClient cx a f, []))) =
       (case apnsClient (fst (run w ops (NewPushClient cx a f, []))) of
          None \<Rightarrow> [] | Some h \<Rightarrow> [cl_Token h])
   \<and> fcm_built (snd (run w ops (NewPushClient cx a f, []))) =
       (case fcmClient (fst (run w ops (NewPushClient cx a f, []))) of
          None \<Rightarrow> [] | Some h \<Rightarrow> [h])
   \<and> list_all (\<lambda>h. apnsClient (fst (run w ops (NewPushClient cx a f, []))) = Some h)
        (apns_used (snd (run w ops (NewPushClient cx a f, []))))
   \<and> list_all (\<lambda>h. fcmClient (fst (run w ops (NewPushClient cx a f, []))) = Some h)
        (fcm_used (snd (run w ops (NewPushClient cx a f, []))))
   \<and> (\<forall>h. apnsClient (fst (run w ops (NewPushClient cx a f, []))) = Some h \<longrightarrow>
          apnsClient (fst (run w (ops @ ops2) (NewPushClient cx a f, []))) = Some h)
   \<and> (\<forall>h. fcmClient (fst (run w ops (NewPushClient cx a f, []))) = Some h \<longrightarrow>
          fcmClient (fst (run w (ops @ ops2) (NewPushClient cx a f, []))) = Some h)"
proof -
  obtain c1 tr1 where r1: "run w ops (NewPushClient cx a f, []) = (c1, tr1)"
    by (cases "run w ops (NewPushClient cx a f, [])") auto
  obtain c2 tr2 where r2: "run w ops2 (c1, tr1) = (c2, tr2)"
    by (cases "run w ops2 (c1, tr1)") auto
  from run_fresh_inv [of a f w ops cx] r1 have inv: "client_inv a f c1 tr1"
    by simp
  from run_step [OF r2, of a f] have k: "keeps c1 c2"
    by (simp add: step_ok_def)
  have b1: "apns_built tr1 = (case apnsClient c1 of None \<Rightarrow> [] | Some h \<Rightarrow> [cl_Token h])"
    and b2: "fcm_built tr1 = (case fcmClient c1 of None \<Rightarrow> [] | Some h \<Rightarrow> [h])"
    and u1: "list_all (\<lambda>h. apnsClient c1 = Some h) (apns_used tr1)"
    and u2: "list_all (\<lambda>h. fcmClient c1 = Some h) (fcm_used tr1)"
    using inv by (simp_all add: client_inv_def)
  have l1: "length (apns_built tr1) \<le> 1"
    unfolding b1 by (simp split: option.splits)
  have l2: "length (fcm_built tr1) \<le> 1"
    unfolding b2 by (simp split: option.splits)
  have k1: "\<forall>h. apnsClient c1 = Some h \<longrightarrow> apnsClient c2 = Some h"
    using k by (auto simp add: keeps_def)
  have k2: "\<forall>h. fcmClient c1 = Some h \<longrightarrow> fcmClient c2 = Some h"
    using k by (auto simp add: keeps_def)
  from l1 l2 b1 b2 u1 u2 k1 k2 show ?thesis
    by (simp add: run_append r1 r2)
qed

lemma run_demo_ops:
  "run demo_world demo_ops (demo_client, []) =
     (cached_client\<lparr> fcmClient := Some (MessagingClient 1) \<rparr>,
      [EvAuthKeyFromFile ''/keys/AuthKey.p8'' (Inr (AuthKey ''p8'')),
       EvNewTokenClient \<lparr> tok_AuthKey = AuthKey ''p8'', tok_KeyID = ''KEY'', tok_TeamID = ''TEAM'' \<rparr>,
       EvPushWithContext (Ctx 1) (the (apnsClient cached_client))
         (apple_notification demo_client ''tok-1'' ''Hi'' ''there'' [] ''x1'')
         (Inr \<lparr> StatusCode = 200, Reason = [] \<rparr>),
       EvNewApp (Ctx 0) \<lparr> cfg_ProjectID = ''demo'' \<rparr> ''/keys/fcm.json'' (Inr (FirebaseApp 1)),
       EvMessaging (Ctx 0) (FirebaseApp 1) (Inr (MessagingClient 1)),
       EvSend (Ctx 2) (MessagingClient 1) (firebase_message ''tok-2'' ''Hi'' ''there'' [] ''x2'')
         (Inr ''projects/demo/messages/1''),
       EvQueryContext (Ctx 3) ''u1'' (Inr (map Inr demo_rows)),
       EvSend (Ctx 3) (MessagingClient 1) (firebase_message ''tok-and'' ''Hi'' ''there'' [] ''x3'')
         (Inr ''projects/demo/messages/1''),
       EvSend (Ctx 3) (MessagingClient 1) (firebase_message ''tok-and2'' ''Hi'' ''there'' [] ''x3'')
         (Inr ''projects/demo/messages/1''),
       EvPushWithContext (Ctx 3) (the (apnsClient cached_client))
         (apple_notification demo_client ''tok-ios2'' ''Hi'' ''there'' [] ''x3'')
         (Inr \<lparr> StatusCode = 200, Reason = [] \<rparr>)])"
  by (simp add: demo_ops_def code_defs demo_defs cached_client_def)

lemma demo_client_fresh:
  "demo_client = NewPushClient (Ctx 0) (NewAPNSCredentialsFromEnv demo_env) (NewFCMCredentialsFromEnv demo_env)"
  by (simp add: demo_client_def NewPushClientFromEnv_def)

theorem C6_single_handle_witness:
  "apnsClient (fst (run demo_world demo_ops (demo_client, []))) =
     Some \<lparr> cl_Token = \<lparr> tok_AuthKey = AuthKey ''p8'', tok_KeyID = ''KEY'', tok_TeamID = ''TEAM'' \<rparr>,
            cl_Host = HostDevelopment \<rparr>
   \<and> fcmClient (fst (run demo_world demo_ops (demo_client, []))) = Some (MessagingClient 1)
   \<and> apnsClient (fst (run demo_world (demo_ops @ more_ops) (demo_client, []))) =
     Some \<lparr> cl_Token = \<lparr> tok_AuthKey = AuthKey ''p8'', tok_KeyID = ''KEY'', tok_TeamID = ''TEAM'' \<rparr>,
            cl_Host = HostDevelopment \<rparr>
   \<and> fcmClient (fst (run demo_world (demo_ops @ more_ops) (demo_client, []))) = Some (MessagingClient 1)
   \<and> apns_built (snd (run demo_world demo_ops (demo_client, []))) =
       [\<lparr> tok_AuthKey = AuthKey ''p8'', tok_KeyID = ''KEY'', tok_TeamID = ''TEAM'' \<rparr>]
   \<and> fcm_built (snd (run demo_world demo_ops (demo_client, []))) = [MessagingClient 1]
   \<and> length (apns_used (snd (run demo_world demo_ops (demo_client, [])))) = 2
   \<and> length (fcm_used (snd (run demo_world demo_ops (demo_client, [])))) = 3"
proof -
  let ?cl = "\<lparr> cl_Token = \<lparr> tok_AuthKey = AuthKey ''p8'', tok_KeyID = ''KEY'', tok_TeamID = ''TEAM'' \<rparr>,
               cl_Host = HostDevelopment \<rparr>"
  note inst = C6_single_handle [where w = demo_world and ops = demo_ops and ?ops2.0 = more_ops
      and cx = "Ctx 0" and a = "NewAPNSCredentialsFromEnv demo_env" and f = "NewFCMCredentialsFromEnv demo_env",
      folded demo_client_fresh]
  have a: "apnsClient (fst (run demo_world demo_ops (demo_client, []))) = Some ?cl"
    by (simp add: run_demo_ops cached_client_def)
  have f: "fcmClient (fst (run demo_world demo_ops (demo_client, []))) = Some (MessagingClient 1)"
    by (simp add: run_demo_ops)
  from inst a have a2: "apnsClient (fst (run demo_world (demo_ops @ more_ops) (demo_client, []))) = Some ?cl"
    by blast
  from inst f have f2: "fcmClient (fst (run demo_world (demo_ops @ more_ops) (demo_client, []))) = Some (MessagingClient 1)"
    by blast
  from inst a have b: "apns_built (snd (run demo_world demo_ops (demo_client, []))) =
       [\<lparr> tok_AuthKey = AuthKey ''p8'', tok_KeyID = ''KEY'', tok_TeamID = ''TEAM'' \<rparr>]"
    by simp
  from inst f have b2: "fcm_built (snd (run demo_world demo_ops (demo_client, []))) = [MessagingClient 1]"
    by simp
  have u: "length (apns_used (snd (run demo_world demo_ops (demo_client, [])))) = 2"
      "length (fcm_used (snd (run demo_world demo_ops (demo_client, [])))) = 3"
    by (simp_all add: run_demo_ops)
  from a f a2 f2 b b2 u show ?thesis by simp
qed

section \<open>The APNs target environment\<close>

text \<open>
  C8. When \<open>SendApplePush\<close> constructs the APNs client, the client's host is the
  development one if the credential's environment string is \<open>development\<close> and the
  production one otherwise. When a handle is already cached, the send goes through that
  handle and leaves it cached, whatever the credentials hold by then. Over any sequence
  of operations on a freshly made client there is at most one construction and every
  push goes to the host selected by the credentials the client was made with.
\<close>

theorem C8_environment_chosen_once:
  "(\<forall>k. apnsClient c = None \<longrightarrow>
         AuthKeyFromFile w tr (P8AuthKeyFilePath (apnsCreds c)) = Inr k \<longrightarrow>
         apnsClient (fst (snd (SendApplePush w c tr cx d t b i x))) =
           Some \<lparr> cl_Token = \<lparr> tok_AuthKey = k, tok_KeyID = P8AuthKeyID (apnsCreds c),
                               tok_TeamID = TeamID (apnsCreds c) \<rparr>,
                  cl_Host = (if Environment (apnsCreds c) = ''development''
                             then HostDevelopment else HostProduction) \<rparr>)
   \<and> (\<forall>h. apnsClient c = Some h \<longrightarrow>
         snd (SendApplePush w (c\<lparr> apnsCreds := a' \<rparr>) tr cx d t b i x) =
           (c\<lparr> apnsCreds := a' \<rparr>,
            tr @ [EvPushWithContext cx h (apple_notification (c\<lparr> apnsCreds := a' \<rparr>) d t b i x)
                    (PushWithContext w tr cx h (apple_notification (c\<lparr> apnsCreds := a' \<rparr>) d t b i x))]))
   \<and> list_all (\<lambda>h. cl_Host h = (if Environment a = ''development'' then HostDevelopment else HostProduction))
        (apns_used (snd (run w ops (NewPushClient cx0 a f, []))))
   \<and> length (apns_built (snd (run w ops (NewPushClient cx0 a f, [])))) \<le> 1"
proof -
  have build: "\<forall>k. apnsClient c = None \<longrightarrow>
         AuthKeyFromFile w tr (P8AuthKeyFilePath (apnsCreds c)) = Inr k \<longrightarrow>
         apnsClient (fst (snd (SendApplePush w c tr cx d t b i x))) =
           Some \<lparr> cl_Token = \<lparr> tok_AuthKey = k, tok_KeyID = P8AuthKeyID (apnsCreds c),
                               tok_TeamID = TeamID (apnsCreds c) \<rparr>,
                  cl_Host = (if Environment (apnsCreds c) = ''development''
                             then HostDevelopment else HostProduction) \<rparr>"
    by (simp add: SendApplePush_def getAPNSClient_build selected_host_def Let_def split: sum.splits)
  have reuse: "\<forall>h. apnsClient c = Some h \<longrightarrow>
         snd (SendApplePush w (c\<lparr> apnsCreds := a' \<rparr>) tr cx d t b i x) =
           (c\<lparr> apnsCreds := a' \<rparr>,
            tr @ [EvPushWithContext cx h (apple_notification (c\<lparr> apnsCreds := a' \<rparr>) d t b i x)
                    (PushWithContext w tr cx h (apple_notification (c\<lparr> apnsCreds := a' \<rparr>) d t b i x))])"
    by (simp add: SendApplePush_def getAPNSClient_cached Let_def split: sum.splits)
  obtain c1 tr1 where r1: "run w ops (NewPushClient cx0 a f, []) = (c1, tr1)"
    by (cases "run w ops (NewPushClient cx0 a f, [])") auto
  from run_fresh_inv [of a f w ops cx0] r1 have inv: "client_inv a f c1 tr1"
    by simp
  have used: "list_all (\<lambda>h. cl_Host h = selected_host a) (apns_used tr1)"
  proof (cases "apnsClient c1")
    case None
    with inv have "apns_used tr1 = []"
      by (simp add: client_inv_def list_all_never)
    then show ?thesis by simp
  next
    case (Some h)
    with inv have "list_all (\<lambda>h'. Some h = Some h') (apns_used tr1)" and "cl_Host h = selected_host a"
      by (simp_all add: client_inv_def)
    then show ?thesis
      by (auto simp add: list_all_iff)
  qed
  have once: "length (apns_built tr1) \<le> 1"
    using inv by (simp add: client_inv_def split: option.splits)
  from build reuse used once show ?thesis
    by (simp add: r1 selected_host_def)
qed

theorem C8_environment_chosen_once_witness:
  "apnsClient (fst (snd (SendApplePush demo_world demo_client [] (Ctx 1) ''tok-1'' ''Hi'' ''there'' [] ''x1''))) =
     Some \<lparr> cl_Token = \<lparr> tok_AuthKey = AuthKey ''p8'', tok_KeyID = ''KEY'', tok_TeamID = ''TEAM'' \<rparr>,
            cl_Host = HostDevelopment \<rparr>
   \<and> apnsClient (fst (snd (SendApplePush demo_world production_client [] (Ctx 1) ''tok-1'' ''Hi'' ''there'' [] ''x1''))) =
     Some \<lparr> cl_Token = \<lparr> tok_AuthKey = AuthKey ''p8'', tok_KeyID = ''KEY'', tok_TeamID = ''TEAM'' \<rparr>,
            cl_Host = HostProduction \<rparr>
   \<and> Environment (apnsCreds switched_client) = ''production''
   \<and> snd (SendApplePush demo_world switched_client [] (Ctx 2) ''tok-1'' ''Hi'' ''there'' [] ''x1'') =
       (switched_client,
        [EvPushWithContext (Ctx 2)
           \<lparr> cl_Token = \<lparr> tok_AuthKey = AuthKey ''p8'', tok_KeyID = ''KEY'', tok_TeamID = ''TEAM'' \<rparr>,
             cl_Host = HostDevelopment \<rparr>
           (apple_notification switched_client ''tok-1'' ''Hi'' ''there'' [] ''x1'')
           (Inr \<lparr> StatusCode = 200, Reason = [] \<rparr>)])
   \<and> map cl_Host (apns_used (snd (run demo_world demo_ops (demo_client, [])))) =
       [HostDevelopment, HostDevelopment]"
proof -
  let ?tok = "\<lparr> tok_AuthKey = AuthKey ''p8'', tok_KeyID = ''KEY'', tok_TeamID = ''TEAM'' \<rparr>"
  have n: "apnsClient demo_client = None" "apnsClient production_client = None"
    by (simp_all add: demo_defs production_client_def)
  have k: "\<And>tr. AuthKeyFromFile demo_world tr (P8AuthKeyFilePath (apnsCreds demo_client)) = Inr (AuthKey ''p8'')"
      "\<And>tr. AuthKeyFromFile demo_world tr (P8AuthKeyFilePath (apnsCreds production_client)) = Inr (AuthKey ''p8'')"
    by (simp_all add: demo_defs production_client_def)
  have cr: "P8AuthKeyID (apnsCreds demo_client) = ''KEY''" "TeamID (apnsCreds demo_client) = ''TEAM''"
      "Environment (apnsCreds demo_client) = ''development''"
      "P8AuthKeyID (apnsCreds production_client) = ''KEY''" "TeamID (apnsCreds production_client) = ''TEAM''"
      "Environment (apnsCreds production_client) = ''production''"
    by (simp_all add: demo_defs production_client_def)
  have a: "apnsClient (fst (snd (SendApplePush demo_world demo_client [] (Ctx 1) ''tok-1'' ''Hi'' ''there'' [] ''x1''))) =
     Some \<lparr> cl_Token = ?tok, cl_Host = HostDevelopment \<rparr>"
    using C8_environment_chosen_once [where c = demo_client and w = demo_world and tr = "[]" and cx = "Ctx 1"
        and d = "''tok-1''" and t = "''Hi''" and b = "''there''" and i = "[]" and x = "''x1''"] n k cr
    by simp
  have b: "apnsClient (fst (snd (SendApplePush demo_world production_client [] (Ctx 1) ''tok-1'' ''Hi'' ''there'' [] ''x1''))) =
     Some \<lparr> cl_Token = ?tok, cl_Host = HostProduction \<rparr>"
    using C8_environment_chosen_once [where c = production_client and w = demo_world and tr = "[]" and cx = "Ctx 1"
        and d = "''tok-1''" and t = "''Hi''" and b = "''there''" and i = "[]" and x = "''x1''"] n k cr
    by simp
  have e: "Environment (apnsCreds switched_client) = ''production''"
    by (simp add: switched_client_def)
  have h: "apnsClient cached_client = Some \<lparr> cl_Token = ?tok, cl_Host = HostDevelopment \<rparr>"
    by (simp add: cached_client_def)
  have p: "PushWithContext demo_world [] (Ctx 2) \<lparr> cl_Token = ?tok, cl_Host = HostDevelopment \<rparr>
             (apple_notification switched_client ''tok-1'' ''Hi'' ''there'' [] ''x1'')
           = Inr \<lparr> StatusCode = 200, Reason = [] \<rparr>"
    by (simp add: demo_world_def apple_notification_def)
  have c: "snd (SendApplePush demo_world switched_client [] (Ctx 2) ''tok-1'' ''Hi'' ''there'' [] ''x1'') =
       (switched_client,
        [EvPushWithContext (Ctx 2) \<lparr> cl_Token = ?tok, cl_Host = HostDevelopment \<rparr>
           (apple_notification switched_client ''tok-1'' ''Hi'' ''there'' [] ''x1'')
           (Inr \<lparr> StatusCode = 200, Reason = [] \<rparr>)])"
    using C8_environment_chosen_once [where c = cached_client
        and a' = "(apnsCreds cached_client)\<lparr> Environment := ''production'' \<rparr>"
        and w = demo_world and tr = "[]" and cx = "Ctx 2"
        and d = "''tok-1''" and t = "''Hi''" and b = "''there''" and i = "[]" and x = "''x1''",
        folded switched_client_def] h p
    by simp
  have r: "map cl_Host (apns_used (snd (run demo_world demo_ops (demo_client, [])))) =
       [HostDevelopment, HostDevelopment]"
    by (simp add: run_demo_ops cached_client_def)
  from a b e c r show ?thesis by simp
qed

end
